theory Spec2Isabelle
  imports Main
begin

section \<open>Python values, strings and errors\<close>

text \<open>
  A Python \<open>str\<close> shown to or typed by a user is a sequence of Unicode code points; it
  is modelled as a list of natural numbers. The action tags of the navigation code
  (\<open>"support_menu"\<close>, \<open>"back"\<close>, \<open>"ticket:7"\<close>, ...) are ASCII and are modelled as
  \<open>string\<close>. A navigation action and a history entry is either an \<open>int\<close> (a node
  id) or such a tag, as in the source, where both are typed \<open>Any\<close>.
\<close>

type_synonym ustr = "nat list"

datatype pyval = PInt int | PStr string

datatype error = ValueError | IndexError | KeyError

definition ascii :: "string \<Rightarrow> ustr" where
  "ascii s = map of_char s"

subsection \<open>\<open>str(int)\<close>\<close>

text \<open>The ASCII digit of a number below ten: the digits start at code 48.\<close>

definition digit_char :: "nat \<Rightarrow> char" where
  "digit_char d = char_of (48 + d)"

function str_nat :: "nat \<Rightarrow> string" where
  "str_nat n = (if n < 10 then [digit_char n] else str_nat (n div 10) @ [digit_char (n mod 10)])"
  by pat_completeness auto
termination
  by (relation "measure (\<lambda>n. n)") auto

declare str_nat.simps [simp del]

definition py_str :: "int \<Rightarrow> string" where
  "py_str i = (if i < 0 then CHR ''-'' # str_nat (nat (- i)) else str_nat (nat i))"

subsection \<open>\<open>str.strip()\<close>, \<open>str.split(sep)\<close>, \<open>str.startswith\<close>\<close>

text \<open>The code points for which \<open>str.isspace\<close> holds; \<open>strip()\<close> removes them at both ends.\<close>

definition is_space :: "nat \<Rightarrow> bool" where
  "is_space c \<longleftrightarrow>
     (9 \<le> c \<and> c \<le> 13) \<or> (28 \<le> c \<and> c \<le> 32) \<or> c = 133 \<or> c = 160 \<or> c = 5760 \<or>
     (8192 \<le> c \<and> c \<le> 8202) \<or> c = 8232 \<or> c = 8233 \<or> c = 8239 \<or> c = 8287 \<or> c = 12288"

definition strip_by :: "('a \<Rightarrow> bool) \<Rightarrow> 'a list \<Rightarrow> 'a list" where
  "strip_by P xs = rev (dropWhile P (rev (dropWhile P xs)))"

definition py_strip :: "ustr \<Rightarrow> ustr" where
  "py_strip t = strip_by is_space t"

fun py_split :: "char \<Rightarrow> string \<Rightarrow> string list" where
  "py_split sep [] = [[]]"
| "py_split sep (c # cs) =
     (if c = sep then [] # py_split sep cs
      else (case py_split sep cs of [] \<Rightarrow> [[c]] | w # ws \<Rightarrow> (c # w) # ws))"

definition startswith :: "string \<Rightarrow> string \<Rightarrow> bool" where
  "startswith s p \<longleftrightarrow> take (length p) s = p"

subsection \<open>\<open>int(str)\<close>\<close>

text \<open>
  \<open>int(s)\<close> on an ASCII string: surrounding whitespace is dropped, one sign is allowed,
  then decimal digits, with single underscores between digits. Anything else raises
  \<open>ValueError\<close>.
\<close>

definition digit_val :: "char \<Rightarrow> nat option" where
  "digit_val c =
     (let code = (of_char c :: nat)
      in if 48 \<le> code \<and> code \<le> 57 then Some (code - 48) else None)"

fun parse_digits :: "nat \<Rightarrow> bool \<Rightarrow> string \<Rightarrow> nat option" where
  "parse_digits acc prev_digit [] = (if prev_digit then Some acc else None)"
| "parse_digits acc prev_digit (c # cs) =
     (if c = CHR ''_'' then
        (if prev_digit \<and> cs \<noteq> [] then parse_digits acc False cs else None)
      else (case digit_val c of
              None \<Rightarrow> None
            | Some d \<Rightarrow> parse_digits (10 * acc + d) True cs))"

definition py_int :: "string \<Rightarrow> error + int" where
  "py_int s =
     (case strip_by (\<lambda>c. is_space (of_char c)) s of
        [] \<Rightarrow> Inl ValueError
      | c # cs \<Rightarrow>
          if c = CHR ''-'' then
            (case parse_digits 0 False cs of None \<Rightarrow> Inl ValueError | Some n \<Rightarrow> Inr (- int n))
          else if c = CHR ''+'' then
            (case parse_digits 0 False cs of None \<Rightarrow> Inl ValueError | Some n \<Rightarrow> Inr (int n))
          else
            (case parse_digits 0 False (c # cs) of None \<Rightarrow> Inl ValueError | Some n \<Rightarrow> Inr (int n)))"

section \<open>keyboard\_utils.py\<close>

text \<open>
  \<open>unicodedata.normalize("NFKC", _)\<close> and \<open>str.lower\<close> are tables of the Unicode
  standard, outside the repository: they are parameters of the model.
\<close>

record unicode_ops =
  py_lower :: "ustr \<Rightarrow> ustr"
  nfkc :: "ustr \<Rightarrow> ustr"

text \<open>\<open>return unicodedata.normalize("NFKC", text.strip().lower())\<close>\<close>

definition normalize_text :: "unicode_ops \<Rightarrow> ustr \<Rightarrow> ustr" where
  "normalize_text U t = nfkc U (py_lower U (py_strip t))"

text \<open>The fixed labels, as code points.\<close>

definition back_button_text :: ustr where
  "back_button_text = [0x2B05, 0xFE0F, 0x20, 0x41D, 0x430, 0x437, 0x430, 0x434]"

definition home_button_text :: ustr where
  "home_button_text = [0x1F3E0, 0x20, 0x412, 0x20, 0x43D, 0x430, 0x447, 0x430, 0x43B, 0x43E]"

definition support_button_text :: ustr where
  "support_button_text =
     [0x2709, 0x20, 0x41D, 0x430, 0x43F, 0x438, 0x441, 0x430, 0x442, 0x44C, 0x20, 0x432, 0x20,
      0x43F, 0x43E, 0x434, 0x434, 0x435, 0x440, 0x436, 0x43A, 0x443]"

definition new_conv :: ustr where
  "new_conv = [0x2795, 0x20, 0x41D, 0x43E, 0x432, 0x430, 0x44F, 0x20, 0x431, 0x435, 0x441,
     0x435, 0x434, 0x430]"

definition my_conv :: ustr where
  "my_conv = [0x1F4C2, 0x20, 0x41C, 0x43E, 0x438, 0x20, 0x431, 0x435, 0x441, 0x435, 0x434,
     0x44B]"

text \<open>The default of \<open>button_data.get('text', ...)\<close> (the Russian for "unknown").\<close>

definition unknown_text :: ustr where
  "unknown_text = [0x41D, 0x435, 0x438, 0x437, 0x432, 0x435, 0x441, 0x442, 0x43D, 0x43E]"

text \<open>The prefix of a ticket button, and of the default ticket title (before \<open>#id\<close>).\<close>

definition ticket_prefix :: ustr where
  "ticket_prefix = [0x1F4AC, 0x20]"

definition default_title_prefix :: ustr where
  "default_title_prefix = [0x411, 0x435, 0x441, 0x435, 0x434, 0x430, 0x20, 0x23]"

record button =
  b_text :: "ustr option"
  next_node_id :: "int option"

record node =
  n_id :: int
  n_text :: "ustr option"
  n_title :: "ustr option"
  n_images :: "ustr list"
  n_buttons :: "button list"

record ticket =
  t_id :: int
  conversation_name :: "ustr option"

text \<open>
  A \<open>ReplyKeyboardMarkup\<close> is its rows of button labels. \<open>markup.add(*buttons)\<close>
  appends the buttons as one row (every call of the source passes one or two buttons,
  below the library's row width of three); with no button it appends nothing.
\<close>

type_synonym markup = "ustr list list"

type_synonym label_index = "ustr \<rightharpoonup> pyval"

definition markup_add :: "markup \<Rightarrow> ustr list \<Rightarrow> markup" where
  "markup_add mk row = (if row = [] then mk else mk @ [row])"

text \<open>
  The loop of \<open>make_keyboard\<close>: \<open>n\<close> is \<open>len(children_buttons)\<close>, \<open>i\<close> the index of
  \<open>enumerate\<close>, and the accumulator holds the markup, \<open>current_row_buttons\<close> and the
  process-wide \<open>normalized_button_actions\<close>.
\<close>

fun make_keyboard_loop ::
  "unicode_ops \<Rightarrow> nat \<Rightarrow> nat \<Rightarrow> button list \<Rightarrow> markup \<times> ustr list \<times> label_index
     \<Rightarrow> markup \<times> ustr list \<times> label_index" where
  "make_keyboard_loop U n i [] acc = acc"
| "make_keyboard_loop U n i (b # bs) (mk, row, idx) =
     (let text = (case b_text b of None \<Rightarrow> unknown_text | Some t \<Rightarrow> t) in
      case next_node_id b of
        None \<Rightarrow> make_keyboard_loop U n (i + 1) bs (mk, row, idx)
      | Some nid \<Rightarrow>
          let row' = row @ [text];
              idx' = idx(normalize_text U text \<mapsto> PInt nid)
          in if length row' = 2 \<or> int i = int n - 1
             then make_keyboard_loop U n (i + 1) bs (markup_add mk row', [], idx')
             else make_keyboard_loop U n (i + 1) bs (mk, row', idx'))"

definition make_keyboard ::
  "unicode_ops \<Rightarrow> pyval \<Rightarrow> node \<Rightarrow> bool \<Rightarrow> label_index \<Rightarrow> markup \<times> label_index" where
  "make_keyboard U current_node_id current_node_data is_root idx0 =
     (let children_buttons = n_buttons current_node_data;
          (mk1, row, idx1) =
             make_keyboard_loop U (length children_buttons) 0 children_buttons ([], [], idx0);
          idx2 = idx1(normalize_text U support_button_text \<mapsto> PStr ''support_menu'');
          mk2 = markup_add mk1 [support_button_text]
      in if \<not> is_root
         then (markup_add mk2 [back_button_text, home_button_text],
               idx2(normalize_text U back_button_text \<mapsto> PStr ''back'',
                    normalize_text U home_button_text \<mapsto> PStr ''home''))
         else (mk2, idx2))"

definition build_ticket_chat_keyboard :: "unicode_ops \<Rightarrow> label_index \<Rightarrow> markup \<times> label_index" where
  "build_ticket_chat_keyboard U idx =
     (markup_add [] [back_button_text, home_button_text],
      idx(normalize_text U back_button_text \<mapsto> PStr ''back'',
          normalize_text U home_button_text \<mapsto> PStr ''home''))"

definition build_support_menu_keyboard :: "unicode_ops \<Rightarrow> label_index \<Rightarrow> markup \<times> label_index" where
  "build_support_menu_keyboard U idx =
     (markup_add (markup_add (markup_add [] [new_conv]) [my_conv])
        [back_button_text, home_button_text],
      idx(normalize_text U new_conv \<mapsto> PStr ''new_conversation'',
          normalize_text U my_conv \<mapsto> PStr ''list_conversations'',
          normalize_text U back_button_text \<mapsto> PStr ''back'',
          normalize_text U home_button_text \<mapsto> PStr ''home''))"

text \<open>The label of a ticket's button and the tag stored for it.\<close>

definition ticket_button_text :: "ticket \<Rightarrow> ustr" where
  "ticket_button_text t =
     ticket_prefix @
     (case conversation_name t of
        None \<Rightarrow> default_title_prefix @ ascii (py_str (t_id t))
      | Some title \<Rightarrow> title)"

definition ticket_action :: "int \<Rightarrow> string" where
  "ticket_action i = ''ticket:'' @ py_str i"

fun tickets_loop :: "unicode_ops \<Rightarrow> ticket list \<Rightarrow> markup \<times> label_index \<Rightarrow> markup \<times> label_index" where
  "tickets_loop U [] acc = acc"
| "tickets_loop U (t # ts) (mk, idx) =
     tickets_loop U ts
       (markup_add mk [ticket_button_text t],
        idx(normalize_text U (ticket_button_text t) \<mapsto> PStr (ticket_action (t_id t))))"

definition build_user_tickets_keyboard ::
  "unicode_ops \<Rightarrow> ticket list \<Rightarrow> label_index \<Rightarrow> markup \<times> label_index" where
  "build_user_tickets_keyboard U tickets idx0 =
     (let (mk, idx) = tickets_loop U tickets ([], idx0)
      in (markup_add mk [back_button_text, home_button_text],
          idx(normalize_text U back_button_text \<mapsto> PStr ''back'',
              normalize_text U home_button_text \<mapsto> PStr ''home'')))"

section \<open>The gateway, the transport and the process state\<close>

text \<open>
  \<open>api_client.py\<close> turns every network error and non-success status into \<open>None\<close>.
  What the remote service answers is not decided by the program: the answers are a
  parameter, one function per call of \<open>ApiClient\<close>. No handler makes the same call
  twice, so one record describes every answer a handler can receive.
\<close>

record login_response =
  lr_token :: "ustr option"

record node_response =
  resp_node :: "node option"

record create_response =
  cr_ticket_id :: "int option"

record send_response =
  sr_status :: "ustr option"

record ticket_message =
  sender_id :: int
  created_at :: ustr
  m_text :: ustr

record gateway =
  login :: "ustr \<Rightarrow> ustr \<Rightarrow> int \<Rightarrow> login_response option"
  get_root_node :: "node option"
  get_content_node :: "pyval \<Rightarrow> node_response option"
  get_user_tickets :: "ticket list option"
  create_ticket :: "int \<Rightarrow> ustr \<Rightarrow> create_response option"
  get_ticket_messages :: "int \<Rightarrow> ticket_message list option"
  send_message_to_conversation :: "int \<Rightarrow> ustr \<Rightarrow> send_response option"

text \<open>
  What a handler does to the outside world, in order: the calls to the gateway and the
  messages and photos sent to the chat. The fixed Russian texts are constructors, named
  after their meaning; texts supplied by the remote service are carried as they are.
  \<open>send_photo\<close> is wrapped in \<open>try/except\<close> in the source, so a photo that cannot be
  sent changes neither the state nor the rest of the trace.
\<close>

datatype api_call =
    Login ustr ustr int
  | GetRootNode
  | GetContentNode pyval
  | GetUserTickets
  | CreateTicket int ustr
  | GetTicketMessages int
  | SendMessageToConversation int ustr

datatype sender = You | Manager

datatype message_text =
    AskUsername
  | AskPassword
  | BadCredentials
  | ConversationCreated ustr
  | CreateFailedTryLater
  | MessageSent
  | SendFailedTryLater
  | NoSelectedConversation
  | UnknownCommand
  | RootLoadFailed
  | NotAuthenticated
  | RootLoadFailedAuth
  | ChooseSection
  | UnknownNavAction
  | ChooseAction
  | AskConversationTitle
  | YourConversations
  | NoConversations
  | TicketHeader int
  | TicketLine ustr sender ustr
  | ConversationEmpty
  | WriteNewMessage
  | SectionUnavailableTryLater
  | SectionDefault
  | Plain ustr
  | LeafView ustr ustr

datatype event =
    Api api_call
  | SendMessage int message_text "markup option"
  | SendPhoto int ustr

text \<open>The texts that end in the Russian for "try later".\<close>

fun try_later :: "message_text \<Rightarrow> bool" where
  "try_later CreateFailedTryLater = True"
| "try_later SendFailedTryLater = True"
| "try_later SectionUnavailableTryLater = True"
| "try_later _ = False"

text \<open>The module-level dictionaries of \<open>state.py\<close>, \<open>keyboard_utils.py\<close> and \<open>api.token\<close>.\<close>

record state =
  user_nav_stack :: "int \<rightharpoonup> pyval list"
  waiting_for_message :: "int set"
  user_ticket_id :: "int \<rightharpoonup> int"
  creating_conversation :: "int \<rightharpoonup> bool"
  awaiting_username :: "int \<rightharpoonup> bool"
  awaiting_password :: "int \<rightharpoonup> ustr"
  normalized_button_actions :: label_index
  api_token :: "ustr option"

text \<open>
  A handler returns the state it leaves and its trace; when it raises, the state and the
  trace reached at that point are kept with the exception, since the dictionaries are
  mutated in place.
\<close>

type_synonym outcome = "state \<times> event list"

type_synonym result = "(error \<times> state \<times> event list) + outcome"

definition final_state :: "result \<Rightarrow> state" where
  "final_state r = (case r of Inl (e, s, evs) \<Rightarrow> s | Inr (s, evs) \<Rightarrow> s)"

definition events_of :: "result \<Rightarrow> event list" where
  "events_of r = (case r of Inl (e, s, evs) \<Rightarrow> evs | Inr (s, evs) \<Rightarrow> evs)"

text \<open>\<open>user_nav_stack.setdefault(user_id, []).append(x)\<close>\<close>

definition push :: "int \<Rightarrow> pyval \<Rightarrow> state \<Rightarrow> state" where
  "push user_id x s =
     s\<lparr>user_nav_stack := (user_nav_stack s)
          (user_id \<mapsto> (case user_nav_stack s user_id of None \<Rightarrow> [] | Some xs \<Rightarrow> xs) @ [x])\<rparr>"

text \<open>\<open>user_id in user_nav_stack and len(user_nav_stack[user_id]) > 1\<close>\<close>

definition can_pop :: "int \<Rightarrow> state \<Rightarrow> bool" where
  "can_pop user_id s =
     (case user_nav_stack s user_id of None \<Rightarrow> False | Some xs \<Rightarrow> length xs > 1)"

text \<open>\<open>user_nav_stack[user_id].pop()\<close>, under \<open>can_pop\<close>\<close>

definition pop :: "int \<Rightarrow> state \<Rightarrow> state" where
  "pop user_id s =
     s\<lparr>user_nav_stack := (user_nav_stack s)
          (user_id \<mapsto> butlast (case user_nav_stack s user_id of None \<Rightarrow> [] | Some xs \<Rightarrow> xs))\<rparr>"

text \<open>\<open>user_nav_stack[user_id][-1]\<close>, on a stack that is not empty\<close>

definition stack_top :: "int \<Rightarrow> state \<Rightarrow> pyval" where
  "stack_top user_id s = last (case user_nav_stack s user_id of None \<Rightarrow> [] | Some xs \<Rightarrow> xs)"

text \<open>\<open>waiting_for_message.discard(user_id); user_ticket_id.pop(user_id, None)\<close>\<close>

definition clear_ticket :: "int \<Rightarrow> state \<Rightarrow> state" where
  "clear_ticket user_id s =
     s\<lparr>waiting_for_message := waiting_for_message s - {user_id},
       user_ticket_id := (user_ticket_id s)(user_id := None)\<rparr>"

section \<open>navigation\_handler.py\<close>

definition send_photos :: "int \<Rightarrow> ustr list \<Rightarrow> event list" where
  "send_photos user_id imgs = map (SendPhoto user_id) imgs"

definition show_main_menu :: "unicode_ops \<Rightarrow> gateway \<Rightarrow> int \<Rightarrow> node option \<Rightarrow> state \<Rightarrow> outcome" where
  "show_main_menu U g user_id root_node_data s =
     (let render = (\<lambda>root s1 evs.
            let (mk, idx) = make_keyboard U (PInt (n_id root)) root True
                              (normalized_button_actions s1)
            in (s1\<lparr>normalized_button_actions := idx\<rparr>,
                evs @ send_photos user_id (n_images root) @
                [SendMessage user_id
                   (case n_text root of None \<Rightarrow> ChooseSection | Some t \<Rightarrow> Plain t)
                   (Some mk)]))
      in case root_node_data of
           Some root \<Rightarrow> render root s []
         | None \<Rightarrow>
             if api_token s = None \<or> api_token s = Some []
             then (s, [SendMessage user_id NotAuthenticated None])
             else (case get_root_node g of
                     None \<Rightarrow> (s, [Api GetRootNode, SendMessage user_id RootLoadFailedAuth None])
                   | Some root \<Rightarrow>
                       render root
                         (s\<lparr>user_nav_stack := (user_nav_stack s)(user_id \<mapsto> [PInt (n_id root)])\<rparr>)
                         [Api GetRootNode]))"

definition reset_to_root_menu :: "unicode_ops \<Rightarrow> gateway \<Rightarrow> int \<Rightarrow> state \<Rightarrow> outcome" where
  "reset_to_root_menu U g user_id s =
     (case get_root_node g of
        Some root_node_data \<Rightarrow>
          (let s1 = s\<lparr>user_nav_stack :=
                        (user_nav_stack s)(user_id \<mapsto> [PInt (n_id root_node_data)])\<rparr>;
               (s2, evs) = show_main_menu U g user_id (Some root_node_data) s1
           in (s2, Api GetRootNode # evs))
      | None \<Rightarrow> (s, [Api GetRootNode, SendMessage user_id RootLoadFailed None]))"

definition open_support_menu :: "unicode_ops \<Rightarrow> int \<Rightarrow> bool \<Rightarrow> state \<Rightarrow> outcome" where
  "open_support_menu U user_id back s =
     (let s1 = (if \<not> back then push user_id (PStr ''support_menu'') s else s);
          (mk, idx) = build_support_menu_keyboard U (normalized_button_actions s1)
      in (s1\<lparr>normalized_button_actions := idx\<rparr>,
          [SendMessage user_id ChooseAction (Some mk)]))"

definition request_new_conversation :: "int \<Rightarrow> state \<Rightarrow> outcome" where
  "request_new_conversation user_id s =
     (s\<lparr>creating_conversation := (creating_conversation s)(user_id \<mapsto> True)\<rparr>,
      [SendMessage user_id AskConversationTitle None])"

definition show_user_conversations ::
  "unicode_ops \<Rightarrow> gateway \<Rightarrow> int \<Rightarrow> bool \<Rightarrow> state \<Rightarrow> outcome" where
  "show_user_conversations U g user_id back s =
     (let s1 = (if \<not> back then push user_id (PStr ''list_conversations'') s else s)
      in case get_user_tickets g of
           Some (t # ts) \<Rightarrow>
             (let (mk, idx) = build_user_tickets_keyboard U (t # ts) (normalized_button_actions s1)
              in (s1\<lparr>normalized_button_actions := idx\<rparr>,
                  [Api GetUserTickets, SendMessage user_id YourConversations (Some mk)]))
         | _ \<Rightarrow> (s1, [Api GetUserTickets, SendMessage user_id NoConversations None]))"

definition ticket_line :: "int \<Rightarrow> ticket_message \<Rightarrow> event" where
  "ticket_line user_id m =
     SendMessage user_id
       (TicketLine (created_at m) (if sender_id m = user_id then You else Manager) (m_text m))
       None"

definition show_ticket_messages ::
  "unicode_ops \<Rightarrow> gateway \<Rightarrow> int \<Rightarrow> string \<Rightarrow> bool \<Rightarrow> state \<Rightarrow> result" where
  "show_ticket_messages U g user_id action back s =
     (case py_split (CHR '':'') action of
        w0 # w1 # ws \<Rightarrow>
          (case py_int w1 of
             Inl e \<Rightarrow> Inl (e, s, [])
           | Inr ticket_id \<Rightarrow>
               (let messages = get_ticket_messages g ticket_id;
                    s1 = (if \<not> back then push user_id (PStr action) s else s);
                    shown = (case messages of
                               Some (m # ms) \<Rightarrow>
                                 SendMessage user_id (TicketHeader ticket_id) None #
                                 map (ticket_line user_id) (m # ms)
                             | _ \<Rightarrow> [SendMessage user_id ConversationEmpty None]);
                    s2 = s1\<lparr>user_ticket_id := (user_ticket_id s1)(user_id \<mapsto> ticket_id),
                            waiting_for_message := insert user_id (waiting_for_message s1)\<rparr>;
                    (mk, idx) = build_ticket_chat_keyboard U (normalized_button_actions s2)
                in Inr (s2\<lparr>normalized_button_actions := idx\<rparr>,
                        Api (GetTicketMessages ticket_id) # shown @
                        [SendMessage user_id WriteNewMessage (Some mk)])))
      | _ \<Rightarrow> Inl (IndexError, s, []))"

definition navigate_content_node ::
  "unicode_ops \<Rightarrow> gateway \<Rightarrow> int \<Rightarrow> pyval \<Rightarrow> bool \<Rightarrow> state \<Rightarrow> outcome" where
  "navigate_content_node U g user_id node_id back s =
     (let node_data_response = get_content_node g node_id;
          node_data = (case node_data_response of None \<Rightarrow> None | Some r \<Rightarrow> resp_node r)
      in case node_data of
           None \<Rightarrow>
             (s, [Api (GetContentNode node_id),
                  SendMessage user_id SectionUnavailableTryLater None])
         | Some nd \<Rightarrow>
             (let has_children_buttons = (n_buttons nd \<noteq> []);
                  is_root = (user_nav_stack s user_id = Some [node_id])
              in if has_children_buttons then
                   (let s1 = (if \<not> back \<and>
                                 (user_nav_stack s user_id = None \<or>
                                  user_nav_stack s user_id = Some [] \<or>
                                  stack_top user_id s \<noteq> node_id)
                              then push user_id node_id s else s);
                        (mk, idx) = make_keyboard U node_id nd is_root
                                      (normalized_button_actions s1)
                    in (s1\<lparr>normalized_button_actions := idx\<rparr>,
                        Api (GetContentNode node_id) # send_photos user_id (n_images nd) @
                        [SendMessage user_id
                           (case n_text nd of None \<Rightarrow> SectionDefault | Some t \<Rightarrow> Plain t)
                           (Some mk)]))
                 else
                   (s, [Api (GetContentNode node_id),
                        SendMessage user_id
                          (LeafView (case n_title nd of None \<Rightarrow> [] | Some t \<Rightarrow> t)
                                    (case n_text nd of None \<Rightarrow> [] | Some t \<Rightarrow> t))
                          None])))"

definition is_str :: "pyval \<Rightarrow> bool" where
  "is_str v = (case v of PStr x \<Rightarrow> True | PInt i \<Rightarrow> False)"

definition is_int :: "pyval \<Rightarrow> bool" where
  "is_int v = (case v of PInt i \<Rightarrow> True | PStr x \<Rightarrow> False)"

definition str_of :: "pyval \<Rightarrow> string" where
  "str_of v = (case v of PStr x \<Rightarrow> x | PInt i \<Rightarrow> [])"

definition handle_navigation_actions ::
  "unicode_ops \<Rightarrow> gateway \<Rightarrow> int \<Rightarrow> pyval \<Rightarrow> bool \<Rightarrow> state \<Rightarrow> result" where
  "handle_navigation_actions U g user_id action back s =
     (if action = PStr ''support_menu'' then Inr (open_support_menu U user_id back s)
      else if action = PStr ''new_conversation'' then Inr (request_new_conversation user_id s)
      else if action = PStr ''list_conversations''
        then Inr (show_user_conversations U g user_id back s)
      else if is_str action \<and> startswith (str_of action) ''ticket:''
        then show_ticket_messages U g user_id (str_of action) back s
      else if action = PStr ''back'' then
        (if can_pop user_id s
         then (let s1 = pop user_id s; node_id = stack_top user_id s1
               in Inr (navigate_content_node U g user_id node_id True s1))
         else Inr (reset_to_root_menu U g user_id s))
      else if action = PStr ''home'' then Inr (reset_to_root_menu U g user_id s)
      else if is_int action then Inr (navigate_content_node U g user_id action back s)
      else Inr (s, [SendMessage user_id UnknownNavAction None]))"

section \<open>text\_handlers.py and main\_bot.py\<close>

definition handle_username_input :: "int \<Rightarrow> ustr \<Rightarrow> state \<Rightarrow> result" where
  "handle_username_input user_id text s =
     (case awaiting_username s user_id of
        None \<Rightarrow> Inl (KeyError, s, [])
      | Some b \<Rightarrow>
          Inr (s\<lparr>awaiting_username := (awaiting_username s)(user_id := None),
                 awaiting_password := (awaiting_password s)(user_id \<mapsto> py_strip text)\<rparr>,
               [SendMessage user_id AskPassword None]))"

text \<open>
  \<open>ApiClient.login\<close>: on an answer it reads \<open>data["token"]\<close> (a \<open>KeyError\<close>, which it does
  not catch, when the key is missing) and stores the token.
\<close>

definition api_login ::
  "gateway \<Rightarrow> ustr \<Rightarrow> ustr \<Rightarrow> int \<Rightarrow> state \<Rightarrow> error + (login_response option \<times> state)" where
  "api_login g username password telegram_id s =
     (case login g username password telegram_id of
        None \<Rightarrow> Inr (None, s)
      | Some data \<Rightarrow>
          (case lr_token data of
             None \<Rightarrow> Inl KeyError
           | Some tok \<Rightarrow> Inr (Some data, s\<lparr>api_token := Some tok\<rparr>)))"

definition handle_password_input ::
  "unicode_ops \<Rightarrow> gateway \<Rightarrow> int \<Rightarrow> ustr \<Rightarrow> state \<Rightarrow> result" where
  "handle_password_input U g user_id text s =
     (case awaiting_password s user_id of
        None \<Rightarrow> Inl (KeyError, s, [])
      | Some username \<Rightarrow>
          (let s1 = s\<lparr>awaiting_password := (awaiting_password s)(user_id := None)\<rparr>;
               password = py_strip text;
               call = Api (Login username password user_id)
           in case api_login g username password user_id s1 of
                Inl e \<Rightarrow> Inl (e, s1, [call])
              | Inr (login_response, s2) \<Rightarrow>
                  if (case login_response of None \<Rightarrow> False | Some d \<Rightarrow> lr_token d \<noteq> None)
                  then (let (s3, evs) = reset_to_root_menu U g user_id s2
                        in Inr (s3, call # evs))
                  else Inr (s2, [call, SendMessage user_id BadCredentials None])))"

definition handle_back_action :: "unicode_ops \<Rightarrow> gateway \<Rightarrow> int \<Rightarrow> state \<Rightarrow> result" where
  "handle_back_action U g user_id s =
     (if can_pop user_id s then
        (let s1 = pop user_id s;
             previous_action = stack_top user_id s1;
             s2 = clear_ticket user_id s1
         in handle_navigation_actions U g user_id previous_action True s2)
      else Inr (reset_to_root_menu U g user_id (clear_ticket user_id s)))"

definition handle_home_action :: "unicode_ops \<Rightarrow> gateway \<Rightarrow> int \<Rightarrow> state \<Rightarrow> result" where
  "handle_home_action U g user_id s =
     Inr (reset_to_root_menu U g user_id (clear_ticket user_id s))"

definition handle_conversation_creation ::
  "unicode_ops \<Rightarrow> gateway \<Rightarrow> int \<Rightarrow> ustr \<Rightarrow> state \<Rightarrow> result" where
  "handle_conversation_creation U g user_id text s =
     (let title = py_strip text;
          ticket_response = create_ticket g user_id title;
          s1 = s\<lparr>creating_conversation := (creating_conversation s)(user_id := None)\<rparr>
      in if (case ticket_response of None \<Rightarrow> False | Some r \<Rightarrow> cr_ticket_id r \<noteq> None) then
           (let tickets = get_user_tickets g;
                s2 = push user_id (PStr ''list_conversations'') s1;
                (mk, idx) = build_user_tickets_keyboard U
                              (case tickets of None \<Rightarrow> [] | Some ts \<Rightarrow> ts)
                              (normalized_button_actions s2)
            in Inr (s2\<lparr>normalized_button_actions := idx\<rparr>,
                    [Api (CreateTicket user_id title), Api GetUserTickets,
                     SendMessage user_id (ConversationCreated title) (Some mk)]))
         else Inr (s1, [Api (CreateTicket user_id title),
                        SendMessage user_id CreateFailedTryLater None]))"

text \<open>\<open>if ticket_id:\<close> is Python truthiness: it fails for \<open>None\<close> and for \<open>0\<close>.\<close>

definition handle_send_message ::
  "unicode_ops \<Rightarrow> gateway \<Rightarrow> int \<Rightarrow> ustr \<Rightarrow> state \<Rightarrow> result" where
  "handle_send_message U g user_id text s =
     (case user_ticket_id s user_id of
        Some ticket_id \<Rightarrow>
          if ticket_id \<noteq> 0 then
            (let send_status = send_message_to_conversation g ticket_id text;
                 call = Api (SendMessageToConversation ticket_id text)
             in if (case send_status of None \<Rightarrow> False
                    | Some r \<Rightarrow> sr_status r = Some (ascii ''success''))
                then (let (mk, idx) = build_ticket_chat_keyboard U (normalized_button_actions s)
                      in Inr (s\<lparr>normalized_button_actions := idx\<rparr>,
                              [call, SendMessage user_id MessageSent (Some mk)]))
                else Inr (s, [call, SendMessage user_id SendFailedTryLater None]))
          else Inr (s, [SendMessage user_id NoSelectedConversation None])
      | None \<Rightarrow> Inr (s, [SendMessage user_id NoSelectedConversation None]))"

definition handle_navigation_or_fallback ::
  "unicode_ops \<Rightarrow> gateway \<Rightarrow> int \<Rightarrow> ustr \<Rightarrow> state \<Rightarrow> result" where
  "handle_navigation_or_fallback U g user_id user_text s =
     (case normalized_button_actions s user_text of
        None \<Rightarrow> Inr (s, [SendMessage user_id UnknownCommand None])
      | Some action \<Rightarrow> handle_navigation_actions U g user_id action False s)"

definition text_message_handler ::
  "unicode_ops \<Rightarrow> gateway \<Rightarrow> int \<Rightarrow> ustr \<Rightarrow> state \<Rightarrow> result" where
  "text_message_handler U g user_id text s =
     (let user_text = normalize_text U text
      in if user_id \<in> dom (awaiting_username s) then handle_username_input user_id text s
         else if user_id \<in> dom (awaiting_password s)
           then handle_password_input U g user_id text s
         else if user_text = normalize_text U back_button_text
           then handle_back_action U g user_id s
         else if user_text = normalize_text U home_button_text
           then handle_home_action U g user_id s
         else if user_id \<in> dom (creating_conversation s)
           then handle_conversation_creation U g user_id text s
         else if user_id \<in> waiting_for_message s
           then handle_send_message U g user_id text s
         else handle_navigation_or_fallback U g user_id user_text s)"

definition start_handler :: "int \<Rightarrow> state \<Rightarrow> result" where
  "start_handler user_id s =
     Inr (s\<lparr>awaiting_username := (awaiting_username s)(user_id \<mapsto> True)\<rparr>,
          [SendMessage user_id AskUsername None])"

text \<open>The state of a process that has just started: every dictionary is empty.\<close>

definition init_state :: state where
  "init_state =
     \<lparr>user_nav_stack = Map.empty, waiting_for_message = {}, user_ticket_id = Map.empty,
      creating_conversation = Map.empty, awaiting_username = Map.empty,
      awaiting_password = Map.empty, normalized_button_actions = Map.empty,
      api_token = None\<rparr>"

section \<open>The keyboard of a node, as specified\<close>

text \<open>
  The words of the specification for the keyboard of a node: the label of a button, the
  child buttons that lead to a node, rows of two with at most a dangling last one, and
  the last child button whose normalised label is a given key.
\<close>

definition label_of :: "button \<Rightarrow> ustr" where
  "label_of b = (case b_text b of None \<Rightarrow> unknown_text | Some t \<Rightarrow> t)"

definition linked :: "button list \<Rightarrow> button list" where
  "linked bs = filter (\<lambda>b. next_node_id b \<noteq> None) bs"

fun rows_of_two :: "'a list \<Rightarrow> 'a list list" where
  "rows_of_two [] = []"
| "rows_of_two [x] = [[x]]"
| "rows_of_two (x # y # zs) = [x, y] # rows_of_two zs"

definition last_linked :: "unicode_ops \<Rightarrow> button list \<Rightarrow> ustr \<Rightarrow> button option" where
  "last_linked U bs k = find (\<lambda>b. normalize_text U (label_of b) = k) (rev (linked bs))"

section \<open>Normalising, as specified\<close>

text \<open>
  The composition in the words of the specification: normalise to the compatibility
  form first, then trim, then lower-case. It is compared with \<open>normalize_text\<close> below.
\<close>

definition normalize_spec :: "unicode_ops \<Rightarrow> ustr \<Rightarrow> ustr" where
  "normalize_spec U t = py_lower U (py_strip (nfkc U t))"

section \<open>Reachable states and invariants\<close>

text \<open>
  The states a process can be in: it starts with empty dictionaries, and every update
  is a \<open>/start\<close> command or a text message of some user, answered by some gateway.
\<close>

inductive reachable :: "unicode_ops \<Rightarrow> state \<Rightarrow> bool" for U :: unicode_ops where
  r_init: "reachable U init_state"
| r_start: "reachable U s \<Longrightarrow> reachable U (final_state (start_handler user_id s))"
| r_text: "reachable U s \<Longrightarrow> reachable U (final_state (text_message_handler U g user_id t s))"

text \<open>No history stack that is stored is the empty list.\<close>

definition stacks_nonempty :: "state \<Rightarrow> bool" where
  "stacks_nonempty s \<longleftrightarrow> (\<forall>u xs. user_nav_stack s u = Some xs \<longrightarrow> xs \<noteq> [])"

text \<open>Whoever is in the waiting-for-message set has an active ticket id.\<close>

definition waiting_has_ticket :: "state \<Rightarrow> bool" where
  "waiting_has_ticket s \<longleftrightarrow> (\<forall>u. u \<in> waiting_for_message s \<longrightarrow> user_ticket_id s u \<noteq> None)"

section \<open>Sample collaborators\<close>

text \<open>
  Concrete collaborators on which the theorems below are evaluated. \<open>unicode_sample\<close>
  is the restriction of the Unicode tables to the characters used here: lower-casing of
  ASCII and Cyrillic capitals, and the compatibility mapping of the Mathematical Bold
  capitals (U+1D400 to U+1D419) to the ASCII capitals; every other code point is left
  as it is, which is what the full tables do for the fixed labels of the program.
\<close>

definition sample_lower_cp :: "nat \<Rightarrow> nat" where
  "sample_lower_cp c =
     (if 0x41 \<le> c \<and> c \<le> 0x5A then c + 0x20
      else if 0x410 \<le> c \<and> c \<le> 0x42F then c + 0x20
      else if 0x400 \<le> c \<and> c \<le> 0x40F then c + 0x50
      else c)"

definition sample_nfkc_cp :: "nat \<Rightarrow> nat" where
  "sample_nfkc_cp c = (if 0x1D400 \<le> c \<and> c \<le> 0x1D419 then c - 0x1D400 + 0x41 else c)"

definition unicode_sample :: unicode_ops where
  "unicode_sample = \<lparr>py_lower = map sample_lower_cp, nfkc = map sample_nfkc_cp\<rparr>"

text \<open>A gateway that is unreachable: every call fails.\<close>

definition gateway_down :: gateway where
  "gateway_down =
     \<lparr>login = (\<lambda>username password telegram_id. None),
      get_root_node = None,
      get_content_node = (\<lambda>node_id. None),
      get_user_tickets = None,
      create_ticket = (\<lambda>client_id title. None),
      get_ticket_messages = (\<lambda>ticket_id. None),
      send_message_to_conversation = (\<lambda>ticket_id text. None)\<rparr>"

text \<open>
  A small catalogue: the root (id 1) lists the menu 2 and the leaf 3, the menu 2 lists
  the leaf 3; node 4 answers without a node. One ticket, with id 0 and no name.
\<close>

definition leaf_sample :: node where
  "leaf_sample =
     \<lparr>n_id = 3, n_text = Some (ascii ''Opening hours''), n_title = Some (ascii ''Hours''),
      n_images = [], n_buttons = []\<rparr>"

definition menu_sample :: node where
  "menu_sample =
     \<lparr>n_id = 2, n_text = Some (ascii ''Documents''), n_title = None, n_images = [],
      n_buttons = [\<lparr>b_text = Some (ascii ''Hours''), next_node_id = Some 3\<rparr>]\<rparr>"

definition root_sample :: node where
  "root_sample =
     \<lparr>n_id = 1, n_text = None, n_title = None, n_images = [ascii ''logo.png''],
      n_buttons = [\<lparr>b_text = Some (ascii ''Docs''), next_node_id = Some 2\<rparr>,
                   \<lparr>b_text = Some (ascii ''Hours''), next_node_id = Some 3\<rparr>]\<rparr>"

definition gateway_sample :: gateway where
  "gateway_sample =
     \<lparr>login = (\<lambda>username password telegram_id.
         if password = ascii ''secret'' then Some \<lparr>lr_token = Some (ascii ''tok'')\<rparr> else None),
      get_root_node = Some root_sample,
      get_content_node = (\<lambda>node_id.
         if node_id = PInt 1 then Some \<lparr>resp_node = Some root_sample\<rparr>
         else if node_id = PInt 2 then Some \<lparr>resp_node = Some menu_sample\<rparr>
         else if node_id = PInt 3 then Some \<lparr>resp_node = Some leaf_sample\<rparr>
         else if node_id = PInt 4 then Some \<lparr>resp_node = None\<rparr>
         else None),
      get_user_tickets = Some [\<lparr>t_id = 0, conversation_name = None\<rparr>],
      create_ticket = (\<lambda>client_id title. Some \<lparr>cr_ticket_id = Some 0\<rparr>),
      get_ticket_messages = (\<lambda>ticket_id.
         if ticket_id = 0
         then Some [\<lparr>sender_id = 7, created_at = ascii ''t1'', m_text = ascii ''hi''\<rparr>]
         else None),
      send_message_to_conversation = (\<lambda>ticket_id text.
         Some \<lparr>sr_status = Some (ascii ''success'')\<rparr>)\<rparr>"

text \<open>The session of user 7 with a given history stack, in a fresh process.\<close>

definition with_stack :: "pyval list \<Rightarrow> state" where
  "with_stack xs = init_state\<lparr>user_nav_stack := [7 \<mapsto> xs]\<rparr>"

text \<open>The state after \<open>/start\<close> and the user name "alice": the password is awaited.\<close>

definition password_pending :: state where
  "password_pending = init_state\<lparr>awaiting_password := [7 \<mapsto> ascii ''alice'']\<rparr>"

text \<open>User 7 with the ticket 5 open.\<close>

definition ticket_open :: state where
  "ticket_open =
     (with_stack [PInt 1, PStr ''support_menu'', PStr ''list_conversations'', PStr (ticket_action 5)])
       \<lparr>waiting_for_message := {7}, user_ticket_id := [7 \<mapsto> 5]\<rparr>"

text \<open>
  User 7, in the support menu, has asked for the list of conversations: the list holds
  the ticket 0, whose button is now in the index of labels.
\<close>

definition ticket_zero_listed :: state where
  "ticket_zero_listed =
     final_state (handle_navigation_actions unicode_sample gateway_sample 7
       (PStr ''list_conversations'') False (with_stack [PInt 1, PStr ''support_menu'']))"

text \<open>A node whose only button leads nowhere, and one whose last button leads nowhere.\<close>

definition node_unlinked :: node where
  "node_unlinked =
     \<lparr>n_id = 5, n_text = None, n_title = None, n_images = [],
      n_buttons = [\<lparr>b_text = Some (ascii ''Docs''), next_node_id = None\<rparr>]\<rparr>"

definition node_dangling :: node where
  "node_dangling =
     \<lparr>n_id = 6, n_text = None, n_title = None, n_images = [],
      n_buttons = [\<lparr>b_text = Some (ascii ''Docs''), next_node_id = Some 2\<rparr>,
                   \<lparr>b_text = Some (ascii ''Hours''), next_node_id = None\<rparr>]\<rparr>"

text \<open>A node with two buttons that lead to the same node.\<close>

definition node_twins :: node where
  "node_twins =
     \<lparr>n_id = 8, n_text = None, n_title = None, n_images = [],
      n_buttons = [\<lparr>b_text = Some (ascii ''Docs''), next_node_id = Some 2\<rparr>,
                   \<lparr>b_text = Some (ascii ''Files''), next_node_id = Some 2\<rparr>]\<rparr>"

text \<open>User 7 at the root menu, as rendered by \<open>make_keyboard\<close>.\<close>

definition root_rendered :: state where
  "root_rendered =
     (with_stack [PInt 1])\<lparr>normalized_button_actions :=
        snd (make_keyboard unicode_sample (PInt 1) root_sample True Map.empty)\<rparr>"

text \<open>
  User 7 entering the title of a new conversation; a user whose login stored a token;
  a gateway that cannot list the tickets, and one that cannot fetch the root node.
\<close>

definition creating_pending :: state where
  "creating_pending =
     (with_stack [PInt 1, PStr ''support_menu''])\<lparr>creating_conversation := [7 \<mapsto> True]\<rparr>"

definition gateway_listing_down :: gateway where
  "gateway_listing_down = gateway_sample\<lparr>get_user_tickets := None\<rparr>"

definition logged_in :: state where
  "logged_in = (with_stack [PInt 1])\<lparr>api_token := Some (ascii ''tok'')\<rparr>"

definition gateway_root_down :: gateway where
  "gateway_root_down = gateway_sample\<lparr>get_root_node := None\<rparr>"

text \<open>
  A run of the process, one text message after the other: user 7 asks for Home, opens
  the support menu and lists the conversations; then user 8, who has no history stack,
  sends the label of the ticket 0.
\<close>

definition at_root :: state where
  "at_root = final_state (text_message_handler unicode_sample gateway_sample 7
     home_button_text init_state)"

definition in_support :: state where
  "in_support = final_state (text_message_handler unicode_sample gateway_sample 7
     support_button_text at_root)"

definition tickets_listed :: state where
  "tickets_listed = final_state (text_message_handler unicode_sample gateway_sample 7
     my_conv in_support)"

definition guest_in_ticket :: state where
  "guest_in_ticket = final_state (text_message_handler unicode_sample gateway_sample 8
     (ticket_prefix @ default_title_prefix @ [48]) tickets_listed)"

section \<open>Properties\<close>

subsection \<open>Printing and reading back a ticket id\<close>

lemma digit_val_digit_char: "d < 10 \<Longrightarrow> digit_val (digit_char d) = Some d"
  by (simp add: digit_val_def digit_char_def)

lemma digit_not_underscore: "digit_val c \<noteq> None \<Longrightarrow> c \<noteq> CHR ''_''"
  by (auto simp: digit_val_def Let_def split: if_splits)

lemma parse_digits_all:
  "\<forall>c\<in>set xs. digit_val c \<noteq> None \<Longrightarrow> xs \<noteq> [] \<or> p \<Longrightarrow>
   parse_digits acc p xs = Some (foldl (\<lambda>a c. 10 * a + the (digit_val c)) acc xs)"
proof (induction xs arbitrary: acc p)
  case Nil
  then show ?case by simp
next
  case (Cons c cs)
  from Cons.prems(1) obtain d where d: "digit_val c = Some d" by auto
  then have ne: "c \<noteq> CHR ''_''" using digit_not_underscore [of c] by simp
  have "parse_digits (10 * acc + d) True cs =
        Some (foldl (\<lambda>a c. 10 * a + the (digit_val c)) (10 * acc + d) cs)"
    using Cons.prems(1) by (intro Cons.IH) auto
  with d ne show ?case by simp
qed

lemma str_nat_digits: "\<forall>c\<in>set (str_nat n). digit_val c \<noteq> None"
proof (induction n rule: str_nat.induct)
  case (1 n)
  show ?case
  proof (cases "n < 10")
    case True
    then show ?thesis by (subst str_nat.simps) (simp add: digit_val_digit_char)
  next
    case False
    with 1 show ?thesis by (subst str_nat.simps) (simp add: digit_val_digit_char)
  qed
qed

lemma str_nat_nonempty: "str_nat n \<noteq> []"
  by (subst str_nat.simps) simp

lemma str_nat_value: "foldl (\<lambda>a c. 10 * a + the (digit_val c)) 0 (str_nat n) = n"
proof (induction n rule: str_nat.induct)
  case (1 n)
  show ?case
  proof (cases "n < 10")
    case True
    then show ?thesis by (subst str_nat.simps) (simp add: digit_val_digit_char)
  next
    case False
    then have "foldl (\<lambda>a c. 10 * a + the (digit_val c)) 0 (str_nat (n div 10)) = n div 10"
      using 1 by simp
    with False show ?thesis
      by (subst str_nat.simps) (simp add: digit_val_digit_char)
  qed
qed

lemma parse_str_nat: "parse_digits 0 False (str_nat n) = Some n"
  using parse_digits_all [OF str_nat_digits, of n False 0] str_nat_nonempty [of n]
  by (simp add: str_nat_value)

lemma dropWhile_none: "\<forall>c\<in>set xs. \<not> P c \<Longrightarrow> dropWhile P xs = xs"
  by (cases xs) auto

lemma strip_by_none: "\<forall>c\<in>set xs. \<not> P c \<Longrightarrow> strip_by P xs = xs"
  by (simp add: strip_by_def dropWhile_none)

lemma digit_not_space: "digit_val c \<noteq> None \<Longrightarrow> \<not> is_space (of_char c)"
  by (auto simp: digit_val_def is_space_def Let_def split: if_splits)

lemma digit_not_sign: "digit_val c \<noteq> None \<Longrightarrow> c \<noteq> CHR ''-'' \<and> c \<noteq> CHR ''+'' \<and> c \<noteq> CHR '':''"
  by (auto simp: digit_val_def Let_def split: if_splits)

lemma py_int_py_str: "py_int (py_str i) = Inr i"
proof (cases "i < 0")
  case True
  have sp: "\<forall>c\<in>set (CHR ''-'' # str_nat (nat (- i))). \<not> is_space (of_char c)"
    using str_nat_digits [of "nat (- i)"] digit_not_space by (auto simp: is_space_def)
  show ?thesis using True
    by (simp add: py_int_def py_str_def strip_by_none [OF sp] parse_str_nat)
next
  case False
  have sp: "\<forall>c\<in>set (str_nat (nat i)). \<not> is_space (of_char c)"
    using str_nat_digits [of "nat i"] digit_not_space by auto
  obtain c cs where cs: "str_nat (nat i) = c # cs"
    using str_nat_nonempty [of "nat i"] by (cases "str_nat (nat i)") auto
  then have "digit_val c \<noteq> None" using str_nat_digits [of "nat i"] by auto
  then have ns: "c \<noteq> CHR ''-''" "c \<noteq> CHR ''+''" using digit_not_sign by auto
  have "parse_digits 0 False (c # cs) = Some (nat i)"
    using parse_str_nat [of "nat i"] cs by simp
  with False ns cs show ?thesis
    using strip_by_none [OF sp]
    by (simp add: py_int_def py_str_def del: parse_digits.simps)
qed

lemma py_split_no_sep: "sep \<notin> set xs \<Longrightarrow> py_split sep xs = [xs]"
  by (induction xs) auto

lemma py_str_no_colon: "CHR '':'' \<notin> set (py_str i)"
  using str_nat_digits digit_not_sign by (auto simp: py_str_def)

lemma split_ticket_action: "py_split (CHR '':'') (ticket_action i) = [''ticket'', py_str i]"
  by (simp add: ticket_action_def py_split_no_sep [OF py_str_no_colon])

lemma startswith_ticket_action: "startswith (ticket_action i) ''ticket:''"
  by (simp add: startswith_def ticket_action_def)

subsection \<open>What the handlers do to the state\<close>

lemma final_state_Inr [simp]: "final_state (Inr p) = fst p"
  by (simp add: final_state_def split: prod.splits)

lemma events_of_Inr [simp]: "events_of (Inr p) = snd p"
  by (simp add: events_of_def split: prod.splits)

lemma final_state_Inl [simp]: "final_state (Inl (e, s, evs)) = s"
  by (simp add: final_state_def)

lemma events_of_Inl [simp]: "events_of (Inl (e, s, evs)) = evs"
  by (simp add: events_of_def)

lemma reset_to_root_menu_state:
  "fst (reset_to_root_menu U g u s) =
     (case get_root_node g of
        None \<Rightarrow> s
      | Some r \<Rightarrow>
          s\<lparr>user_nav_stack := (user_nav_stack s)(u \<mapsto> [PInt (n_id r)]),
            normalized_button_actions :=
              snd (make_keyboard U (PInt (n_id r)) r True (normalized_button_actions s))\<rparr>)"
  by (simp add: reset_to_root_menu_def show_main_menu_def Let_def split: option.splits prod.splits)

lemma ticket_action_not_fixed:
  "ticket_action tid \<noteq> ''support_menu''"
  "ticket_action tid \<noteq> ''new_conversation''"
  "ticket_action tid \<noteq> ''list_conversations''"
  by (simp_all add: ticket_action_def)

subsection \<open>A node that cannot be fetched\<close>

text \<open>
  C5. When the action is a node id and the fetch fails, or answers without a node, the
  engine sends the "section unavailable, try later" message and returns the state it
  was given: the history stack, every flag and the active ticket id are untouched.
\<close>

theorem fetch_failure_leaves_session:
  assumes "get_content_node g (PInt n) = None \<or>
           (\<exists>r. get_content_node g (PInt n) = Some r \<and> resp_node r = None)"
  shows "handle_navigation_actions U g u (PInt n) back s =
           Inr (s, [Api (GetContentNode (PInt n)),
                    SendMessage u SectionUnavailableTryLater None])"
  using assms
  by (auto simp: handle_navigation_actions_def navigate_content_node_def is_str_def is_int_def)

theorem fetch_failure_leaves_session_witness:
  "get_content_node gateway_sample (PInt 4) = Some \<lparr>resp_node = None\<rparr> \<and>
   handle_navigation_actions unicode_sample gateway_sample 7 (PInt 4) False (with_stack [PInt 1]) =
     Inr (with_stack [PInt 1],
          [Api (GetContentNode (PInt 4)), SendMessage 7 SectionUnavailableTryLater None])"
  using fetch_failure_leaves_session [of gateway_sample 4 unicode_sample 7 False "with_stack [PInt 1]"]
  by (simp add: gateway_sample_def)

subsection \<open>Opening a ticket\<close>

text \<open>
  C6. For every user, ticket id and value of the back flag, the action \<open>ticket:id\<close>
  returns normally with the active ticket id set to that id and the user in the
  waiting-for-message set, whatever the message fetch answered. When the back flag is
  false the user's history stack is the old one (the empty list for a user without a
  stack) with the tag \<open>ticket:id\<close> appended, and the other users' stacks are as they
  were; when the back flag is true every stack is as it was.
\<close>

theorem ticket_view_arms_message_mode:
  "\<exists>s' evs.
     handle_navigation_actions U g u (PStr (ticket_action tid)) back s = Inr (s', evs) \<and>
     user_ticket_id s' u = Some tid \<and> u \<in> waiting_for_message s' \<and>
     user_nav_stack s' =
       (if back then user_nav_stack s
        else (user_nav_stack s)
               (u \<mapsto> (case user_nav_stack s u of None \<Rightarrow> [] | Some xs \<Rightarrow> xs) @
                       [PStr (ticket_action tid)]))"
  by (simp add: handle_navigation_actions_def ticket_action_not_fixed is_str_def str_of_def
      startswith_ticket_action show_ticket_messages_def split_ticket_action py_int_py_str
      build_ticket_chat_keyboard_def push_def Let_def)

theorem ticket_view_arms_message_mode_witness:
  "user_ticket_id
     (final_state (handle_navigation_actions unicode_sample gateway_down 7
        (PStr (ticket_action 42)) False (with_stack [PInt 1]))) 7 = Some 42 \<and>
   7 \<in> waiting_for_message
     (final_state (handle_navigation_actions unicode_sample gateway_down 7
        (PStr (ticket_action 42)) False (with_stack [PInt 1]))) \<and>
   user_nav_stack
     (final_state (handle_navigation_actions unicode_sample gateway_down 7
        (PStr (ticket_action 42)) False (with_stack [PInt 1]))) 7 =
     Some [PInt 1, PStr (ticket_action 42)] \<and>
   user_nav_stack
     (final_state (handle_navigation_actions unicode_sample gateway_down 8
        (PStr (ticket_action 42)) False (with_stack [PInt 1]))) 8 =
     Some [PStr (ticket_action 42)] \<and>
   user_ticket_id
     (final_state (handle_navigation_actions unicode_sample gateway_sample 7
        (PStr (ticket_action 0)) True (with_stack [PInt 1, PStr (ticket_action 0)]))) 7 = Some 0 \<and>
   7 \<in> waiting_for_message
     (final_state (handle_navigation_actions unicode_sample gateway_sample 7
        (PStr (ticket_action 0)) True (with_stack [PInt 1, PStr (ticket_action 0)]))) \<and>
   user_nav_stack
     (final_state (handle_navigation_actions unicode_sample gateway_sample 7
        (PStr (ticket_action 0)) True (with_stack [PInt 1, PStr (ticket_action 0)]))) 7 =
     Some [PInt 1, PStr (ticket_action 0)]"
  using ticket_view_arms_message_mode [of unicode_sample gateway_down 7 42 False
      "with_stack [PInt 1]"]
    ticket_view_arms_message_mode [of unicode_sample gateway_down 8 42 False
      "with_stack [PInt 1]"]
    ticket_view_arms_message_mode [of unicode_sample gateway_sample 7 0 True
      "with_stack [PInt 1, PStr (ticket_action 0)]"]
  by (auto simp: with_stack_def init_state_def)

subsection \<open>Home\<close>

text \<open>
  C3, as stated, fails: when the root node cannot be fetched, Home leaves the history
  stack as it was; here a stack of two entries stays a stack of two entries.
\<close>

theorem home_root_failure_counterexample:
  "get_root_node gateway_down = None \<and>
   user_nav_stack
     (final_state (handle_home_action unicode_sample gateway_down 7 (with_stack [PInt 1, PInt 2]))) 7 =
     Some [PInt 1, PInt 2]"
  by (simp add: handle_home_action_def reset_to_root_menu_def gateway_down_def
      clear_ticket_def with_stack_def)

text \<open>
  C3, amended. Home returns normally, with the user out of the waiting-for-message set
  and without an active ticket id. When the root fetch succeeds the user's stack is the
  single-element list of the root node id, whatever it was before, and the other users'
  stacks are untouched; when the fetch fails every stack is left as it was and the
  "main menu could not be loaded" message is sent. Running Home again on the result,
  with the same answer of the gateway, yields the same stacks.
\<close>

theorem home_resets_stack:
  "\<exists>s' evs.
     handle_home_action U g u s = Inr (s', evs) \<and>
     u \<notin> waiting_for_message s' \<and> user_ticket_id s' u = None \<and>
     user_nav_stack s' =
       (case get_root_node g of
          Some root \<Rightarrow> (user_nav_stack s)(u \<mapsto> [PInt (n_id root)])
        | None \<Rightarrow> user_nav_stack s) \<and>
     (get_root_node g = None \<longrightarrow> evs = [Api GetRootNode, SendMessage u RootLoadFailed None]) \<and>
     user_nav_stack (final_state (handle_home_action U g u s')) = user_nav_stack s'"
proof -
  obtain s' evs where r: "reset_to_root_menu U g u (clear_ticket u s) = (s', evs)"
    by (cases "reset_to_root_menu U g u (clear_ticket u s)")
  then have s': "s' = fst (reset_to_root_menu U g u (clear_ticket u s))" by simp
  have again: "user_nav_stack (fst (reset_to_root_menu U g u (clear_ticket u s'))) = user_nav_stack s'"
    unfolding s' by (simp add: reset_to_root_menu_state clear_ticket_def split: option.splits)
  have "user_nav_stack (final_state (handle_home_action U g u s')) = user_nav_stack s'"
    using again by (simp add: handle_home_action_def)
  moreover have "u \<notin> waiting_for_message s'" "user_ticket_id s' u = None"
    "user_nav_stack s' =
       (case get_root_node g of
          Some root \<Rightarrow> (user_nav_stack s)(u \<mapsto> [PInt (n_id root)])
        | None \<Rightarrow> user_nav_stack s)"
    unfolding s' by (simp_all add: reset_to_root_menu_state clear_ticket_def split: option.splits)
  moreover have "get_root_node g = None \<longrightarrow> evs = [Api GetRootNode, SendMessage u RootLoadFailed None]"
    using r by (auto simp: reset_to_root_menu_def)
  ultimately show ?thesis using r by (simp add: handle_home_action_def)
qed

theorem home_resets_stack_witness:
  "user_nav_stack
     (final_state (handle_home_action unicode_sample gateway_sample 7
        (with_stack [PInt 1, PInt 2, PStr ''support_menu'']))) 7 = Some [PInt 1]"
  using home_resets_stack [of unicode_sample gateway_sample 7
      "with_stack [PInt 1, PInt 2, PStr ''support_menu'']"]
  by (auto simp: gateway_sample_def root_sample_def with_stack_def)

subsection \<open>The history stack is never the empty list\<close>

lemma stacks_nonempty_push: "stacks_nonempty s \<Longrightarrow> stacks_nonempty (push u x s)"
  by (simp add: stacks_nonempty_def push_def)

lemma stacks_nonempty_pop: "stacks_nonempty s \<Longrightarrow> can_pop u s \<Longrightarrow> stacks_nonempty (pop u s)"
  by (auto simp: stacks_nonempty_def pop_def can_pop_def split: option.splits)
     (metis One_nat_def length_butlast length_greater_0_conv list.size(3) zero_less_diff)

lemma stacks_nonempty_clear_ticket [simp]:
  "stacks_nonempty (clear_ticket u s) = stacks_nonempty s"
  by (simp add: stacks_nonempty_def clear_ticket_def)

lemma stacks_nonempty_index [simp]:
  "stacks_nonempty (s\<lparr>normalized_button_actions := idx\<rparr>) = stacks_nonempty s"
  by (simp add: stacks_nonempty_def)

lemma stacks_nonempty_reset:
  "stacks_nonempty s \<Longrightarrow> stacks_nonempty (fst (reset_to_root_menu U g u s))"
  by (simp add: reset_to_root_menu_state stacks_nonempty_def split: option.splits)

lemma stacks_nonempty_support:
  "stacks_nonempty s \<Longrightarrow> stacks_nonempty (fst (open_support_menu U u back s))"
  by (simp add: open_support_menu_def stacks_nonempty_push Let_def split: prod.splits)

lemma stacks_nonempty_request:
  "stacks_nonempty s \<Longrightarrow> stacks_nonempty (fst (request_new_conversation u s))"
  by (simp add: request_new_conversation_def stacks_nonempty_def)

lemma stacks_nonempty_conversations:
  "stacks_nonempty s \<Longrightarrow> stacks_nonempty (fst (show_user_conversations U g u back s))"
  by (simp add: show_user_conversations_def stacks_nonempty_push Let_def
      split: prod.splits option.splits list.splits)

lemma stacks_nonempty_ticket:
  "stacks_nonempty s \<Longrightarrow> stacks_nonempty (final_state (show_ticket_messages U g u a back s))"
proof -
  have upd: "\<And>s1 t w. stacks_nonempty (s1\<lparr>user_ticket_id := t, waiting_for_message := w\<rparr>) = stacks_nonempty s1"
    by (simp add: stacks_nonempty_def)
  assume "stacks_nonempty s"
  then show ?thesis
    by (simp add: show_ticket_messages_def stacks_nonempty_push Let_def upd
        split: prod.splits option.splits list.splits sum.splits)
qed

lemma stacks_nonempty_node:
  "stacks_nonempty s \<Longrightarrow> stacks_nonempty (fst (navigate_content_node U g u v back s))"
  by (simp add: navigate_content_node_def stacks_nonempty_push Let_def
      split: prod.splits option.splits)

lemma stacks_nonempty_navigation:
  "stacks_nonempty s \<Longrightarrow> stacks_nonempty (final_state (handle_navigation_actions U g u a back s))"
  by (simp add: handle_navigation_actions_def stacks_nonempty_support stacks_nonempty_request
      stacks_nonempty_conversations stacks_nonempty_ticket stacks_nonempty_node
      stacks_nonempty_reset stacks_nonempty_pop Let_def)

lemma stacks_nonempty_back:
  "stacks_nonempty s \<Longrightarrow> stacks_nonempty (final_state (handle_back_action U g u s))"
  by (simp add: handle_back_action_def stacks_nonempty_navigation stacks_nonempty_reset
      stacks_nonempty_pop Let_def)

lemma stacks_nonempty_text:
  "stacks_nonempty s \<Longrightarrow> stacks_nonempty (final_state (text_message_handler U g u t s))"
proof -
  assume inv: "stacks_nonempty s"
  have 1: "stacks_nonempty (final_state (handle_username_input u t s))"
    using inv by (simp add: handle_username_input_def stacks_nonempty_def split: option.splits)
  have upd: "\<And>s1 x. stacks_nonempty (s1\<lparr>awaiting_password := x\<rparr>) = stacks_nonempty s1"
       "\<And>s1 x. stacks_nonempty (s1\<lparr>api_token := x\<rparr>) = stacks_nonempty s1"
       "\<And>s1 x. stacks_nonempty (s1\<lparr>creating_conversation := x\<rparr>) = stacks_nonempty s1"
    by (simp_all add: stacks_nonempty_def)
  have 2: "stacks_nonempty (final_state (handle_password_input U g u t s))"
    using inv
    by (simp add: handle_password_input_def api_login_def upd Let_def split_beta
        stacks_nonempty_reset split: option.splits)
  have 3: "stacks_nonempty (final_state (handle_home_action U g u s))"
    using inv by (simp add: handle_home_action_def stacks_nonempty_reset)
  have 4: "stacks_nonempty (final_state (handle_conversation_creation U g u t s))"
    using inv
    by (simp add: handle_conversation_creation_def upd stacks_nonempty_push Let_def
        split: prod.splits)
  have 5: "stacks_nonempty (final_state (handle_send_message U g u t s))"
    using inv
    by (simp add: handle_send_message_def Let_def split: option.splits prod.splits)
  have 6: "stacks_nonempty (final_state (handle_navigation_or_fallback U g u x s))" for x
    using inv
    by (simp add: handle_navigation_or_fallback_def stacks_nonempty_navigation split: option.splits)
  show ?thesis
    by (simp add: text_message_handler_def Let_def 1 2 3 4 5 6 stacks_nonempty_back [OF inv])
qed

lemma stacks_nonempty_start:
  "stacks_nonempty s \<Longrightarrow> stacks_nonempty (final_state (start_handler u s))"
  by (simp add: start_handler_def stacks_nonempty_def)

lemma stacks_nonempty_reachable: "reachable U s \<Longrightarrow> stacks_nonempty s"
proof (induction rule: reachable.induct)
  case r_init
  show ?case by (simp add: stacks_nonempty_def init_state_def)
next
  case (r_start s user_id)
  then show ?case by (simp add: stacks_nonempty_start)
next
  case (r_text s g user_id t)
  then show ?case by (simp add: stacks_nonempty_text)
qed

subsection \<open>Back at the bottom of the stack\<close>

text \<open>
  C1, as stated, fails: Back on a stack of at most one element resets the stack to the
  root only when the root node can be fetched. With the gateway down, a user without a
  stack still has none after Back, and the one-element stack that holds the support
  marker still holds it.
\<close>

theorem back_at_root_counterexample:
  "user_nav_stack (final_state (handle_back_action unicode_sample gateway_down 7 init_state)) 7 = None \<and>
   user_nav_stack
     (final_state (handle_back_action unicode_sample gateway_down 7
        (with_stack [PStr ''support_menu'']))) 7 = Some [PStr ''support_menu'']"
  by (simp add: handle_back_action_def can_pop_def reset_to_root_menu_def gateway_down_def
      clear_ticket_def with_stack_def init_state_def)

text \<open>
  C1, amended. In every reachable state no stored history stack is the empty list. When
  the user's stack has at most one element (or the user has none), Back is Home, in the
  text handler and in the navigation engine: the user leaves the waiting-for-message
  set, the active ticket id is dropped, and the stack becomes the single-element list of
  the root node id when the root fetch succeeds and is left as it was when it fails.
\<close>

theorem back_at_root_is_home:
  assumes "reachable U s"
  shows "stacks_nonempty s \<and>
    (\<not> can_pop u s \<longrightarrow>
       handle_back_action U g u s = handle_home_action U g u s \<and>
       handle_navigation_actions U g u (PStr ''back'') back s =
         handle_navigation_actions U g u (PStr ''home'') back s \<and>
       u \<notin> waiting_for_message (final_state (handle_back_action U g u s)) \<and>
       user_ticket_id (final_state (handle_back_action U g u s)) u = None \<and>
       user_nav_stack (final_state (handle_back_action U g u s)) u =
         (case get_root_node g of
            Some root \<Rightarrow> Some [PInt (n_id root)]
          | None \<Rightarrow> user_nav_stack s u))"
proof (intro conjI impI)
  show "stacks_nonempty s" using assms by (rule stacks_nonempty_reachable)
next
  assume "\<not> can_pop u s"
  then show "handle_back_action U g u s = handle_home_action U g u s"
    by (simp add: handle_back_action_def handle_home_action_def)
next
  assume "\<not> can_pop u s"
  then show "handle_navigation_actions U g u (PStr ''back'') back s =
         handle_navigation_actions U g u (PStr ''home'') back s"
    by (simp add: handle_navigation_actions_def is_str_def str_of_def startswith_def)
next
  assume "\<not> can_pop u s"
  then show "u \<notin> waiting_for_message (final_state (handle_back_action U g u s))"
    by (simp add: handle_back_action_def reset_to_root_menu_state clear_ticket_def
        split: option.splits)
next
  assume "\<not> can_pop u s"
  then show "user_ticket_id (final_state (handle_back_action U g u s)) u = None"
    by (simp add: handle_back_action_def reset_to_root_menu_state clear_ticket_def
        split: option.splits)
next
  assume "\<not> can_pop u s"
  then show "user_nav_stack (final_state (handle_back_action U g u s)) u =
         (case get_root_node g of
            Some root \<Rightarrow> Some [PInt (n_id root)]
          | None \<Rightarrow> user_nav_stack s u)"
    by (simp add: handle_back_action_def reset_to_root_menu_state clear_ticket_def
        split: option.splits)
qed

subsection \<open>Leaves\<close>

text \<open>
  C4, as stated, fails in its last part. User 7 is at the menu 2, reached from the root
  1, and opens the leaf 3 that the menu 2 lists: the top of the stack is still 2. Back
  then pops the menu 2 and fetches the node 1: it returns to the entry beneath the menu
  that listed the leaf, not to that menu.
\<close>

theorem leaf_back_counterexample:
  "stack_top 7 (final_state (handle_navigation_actions unicode_sample gateway_sample 7 (PInt 3) False
       (with_stack [PInt 1, PInt 2]))) = PInt 2 \<and>
   user_nav_stack
     (final_state (handle_back_action unicode_sample gateway_sample 7
        (final_state (handle_navigation_actions unicode_sample gateway_sample 7 (PInt 3) False
           (with_stack [PInt 1, PInt 2]))))) 7 = Some [PInt 1] \<and>
   hd (events_of (handle_back_action unicode_sample gateway_sample 7
        (final_state (handle_navigation_actions unicode_sample gateway_sample 7 (PInt 3) False
           (with_stack [PInt 1, PInt 2]))))) = Api (GetContentNode (PInt 1))"
  by (simp add: handle_navigation_actions_def navigate_content_node_def is_str_def is_int_def
      str_of_def startswith_def gateway_sample_def leaf_sample_def root_sample_def with_stack_def
      handle_back_action_def can_pop_def pop_def stack_top_def clear_ticket_def Let_def split_beta)

lemma replay_node_stack:
  "user_nav_stack (final_state (handle_navigation_actions U g u (PInt k) True s)) =
     user_nav_stack s \<and>
   hd (events_of (handle_navigation_actions U g u (PInt k) True s)) =
     Api (GetContentNode (PInt k))"
  by (simp add: handle_navigation_actions_def navigate_content_node_def is_str_def is_int_def
      Let_def split_beta split: option.splits)

text \<open>
  C4, amended. The action of a node id whose node has no child button returns the state
  it was given, so the history stack is unchanged and the action never adds a leaf's id
  to it, and sends the node's title and text without markup. Back after visiting a leaf
  therefore does what Back would have done without the visit. When the stack has more
  than one entry it removes the top entry (the menu from which the leaf was opened) and
  replays the entry beneath it: when that entry is a node id, the stack ends with that
  node id and that node is the one fetched. When the stack has at most one entry, Back
  after the leaf is Home.
\<close>

theorem leaf_leaves_state:
  assumes "get_content_node g (PInt n) = Some r" and "resp_node r = Some nd"
    and "n_buttons nd = []"
  shows "handle_navigation_actions U g u (PInt n) back s =
           Inr (s, [Api (GetContentNode (PInt n)),
                    SendMessage u
                      (LeafView (case n_title nd of None \<Rightarrow> [] | Some t \<Rightarrow> t)
                                (case n_text nd of None \<Rightarrow> [] | Some t \<Rightarrow> t))
                      None]) \<and>
         handle_back_action U g' u
           (final_state (handle_navigation_actions U g u (PInt n) back s)) =
           handle_back_action U g' u s \<and>
         (user_nav_stack s u = Some (ys @ [e, m]) \<longrightarrow>
            handle_back_action U g' u
              (final_state (handle_navigation_actions U g u (PInt n) back s)) =
              handle_navigation_actions U g' u e True
                (clear_ticket u (s\<lparr>user_nav_stack := (user_nav_stack s)(u \<mapsto> ys @ [e])\<rparr>))) \<and>
         (user_nav_stack s u = Some (ys @ [PInt k, m]) \<longrightarrow>
            user_nav_stack (final_state (handle_back_action U g' u
              (final_state (handle_navigation_actions U g u (PInt n) back s)))) u =
              Some (ys @ [PInt k]) \<and>
            hd (events_of (handle_back_action U g' u
              (final_state (handle_navigation_actions U g u (PInt n) back s)))) =
              Api (GetContentNode (PInt k))) \<and>
         (\<not> can_pop u s \<longrightarrow>
            handle_back_action U g' u
              (final_state (handle_navigation_actions U g u (PInt n) back s)) =
              handle_home_action U g' u s)"
proof -
  have 1: "handle_navigation_actions U g u (PInt n) back s =
           Inr (s, [Api (GetContentNode (PInt n)),
                    SendMessage u
                      (LeafView (case n_title nd of None \<Rightarrow> [] | Some t \<Rightarrow> t)
                                (case n_text nd of None \<Rightarrow> [] | Some t \<Rightarrow> t))
                      None])"
    using assms
    by (simp add: handle_navigation_actions_def navigate_content_node_def is_str_def is_int_def)
  have pop_eq: "handle_back_action U g' u s =
      handle_navigation_actions U g' u e' True
        (clear_ticket u (s\<lparr>user_nav_stack := (user_nav_stack s)(u \<mapsto> ys @ [e'])\<rparr>))"
    if "user_nav_stack s u = Some (ys @ [e', m])" for e'
    using that
    by (simp add: handle_back_action_def can_pop_def pop_def stack_top_def Let_def butlast_append)
  have node: "user_nav_stack (final_state (handle_back_action U g' u s)) u = Some (ys @ [PInt k]) \<and>
      hd (events_of (handle_back_action U g' u s)) = Api (GetContentNode (PInt k))"
    if "user_nav_stack s u = Some (ys @ [PInt k, m])"
    unfolding pop_eq [OF that]
    by (simp add: replay_node_stack clear_ticket_def)
  have home: "handle_back_action U g' u s = handle_home_action U g' u s" if "\<not> can_pop u s"
    using that by (simp add: handle_back_action_def handle_home_action_def)
  show ?thesis
    unfolding 1 using pop_eq node home by simp
qed

theorem leaf_leaves_state_witness:
  "handle_navigation_actions unicode_sample gateway_sample 7 (PInt 3) False
     (with_stack [PInt 1, PInt 2]) =
     Inr (with_stack [PInt 1, PInt 2],
          [Api (GetContentNode (PInt 3)),
           SendMessage 7 (LeafView (ascii ''Hours'') (ascii ''Opening hours'')) None]) \<and>
   user_nav_stack (final_state (handle_back_action unicode_sample gateway_sample 7
     (final_state (handle_navigation_actions unicode_sample gateway_sample 7 (PInt 3) False
        (with_stack [PInt 1, PInt 2]))))) 7 = Some [PInt 1] \<and>
   hd (events_of (handle_back_action unicode_sample gateway_sample 7
     (final_state (handle_navigation_actions unicode_sample gateway_sample 7 (PInt 3) False
        (with_stack [PInt 1, PInt 2]))))) = Api (GetContentNode (PInt 1)) \<and>
   \<not> can_pop 7 (with_stack [PInt 2]) \<and>
   handle_back_action unicode_sample gateway_sample 7
     (final_state (handle_navigation_actions unicode_sample gateway_sample 7 (PInt 3) False
        (with_stack [PInt 2]))) =
     handle_home_action unicode_sample gateway_sample 7 (with_stack [PInt 2])"
proof -
  have leaf: "get_content_node gateway_sample (PInt 3) = Some \<lparr>resp_node = Some leaf_sample\<rparr>"
    "resp_node \<lparr>resp_node = Some leaf_sample\<rparr> = Some leaf_sample"
    "n_buttons leaf_sample = []"
    by (simp_all add: gateway_sample_def leaf_sample_def)
  have st: "user_nav_stack (with_stack [PInt 1, PInt 2]) 7 = Some ([] @ [PInt 1, PInt 2])"
    by (simp add: with_stack_def)
  have np: "\<not> can_pop 7 (with_stack [PInt 2])"
    by (simp add: can_pop_def with_stack_def)
  note a = leaf_leaves_state [OF leaf, where U = unicode_sample and u = 7
      and s = "with_stack [PInt 1, PInt 2]" and g' = gateway_sample and ys = "[]" and k = 1
      and m = "PInt 2"]
  note b = leaf_leaves_state [OF leaf, where U = unicode_sample and u = 7
      and s = "with_stack [PInt 2]" and g' = gateway_sample]
  have c1: "handle_navigation_actions unicode_sample gateway_sample 7 (PInt 3) False
       (with_stack [PInt 1, PInt 2]) =
     Inr (with_stack [PInt 1, PInt 2],
          [Api (GetContentNode (PInt 3)),
           SendMessage 7 (LeafView (ascii ''Hours'') (ascii ''Opening hours'')) None])"
    using a [of False, THEN conjunct1] by (simp add: leaf_sample_def)
  have c2: "user_nav_stack (final_state (handle_back_action unicode_sample gateway_sample 7
     (final_state (handle_navigation_actions unicode_sample gateway_sample 7 (PInt 3) False
        (with_stack [PInt 1, PInt 2]))))) 7 = Some ([] @ [PInt 1]) \<and>
   hd (events_of (handle_back_action unicode_sample gateway_sample 7
     (final_state (handle_navigation_actions unicode_sample gateway_sample 7 (PInt 3) False
        (with_stack [PInt 1, PInt 2]))))) = Api (GetContentNode (PInt 1))"
    by (rule a [of False, THEN conjunct2, THEN conjunct2, THEN conjunct2, THEN conjunct1,
          rule_format, OF st])
  have c3: "handle_back_action unicode_sample gateway_sample 7
     (final_state (handle_navigation_actions unicode_sample gateway_sample 7 (PInt 3) False
        (with_stack [PInt 2]))) =
     handle_home_action unicode_sample gateway_sample 7 (with_stack [PInt 2])"
    by (rule b [of False, THEN conjunct2, THEN conjunct2, THEN conjunct2, THEN conjunct2,
          rule_format, OF np])
  from c2 have c2': "user_nav_stack (final_state (handle_back_action unicode_sample gateway_sample 7
     (final_state (handle_navigation_actions unicode_sample gateway_sample 7 (PInt 3) False
        (with_stack [PInt 1, PInt 2]))))) 7 = Some [PInt 1]"
    "hd (events_of (handle_back_action unicode_sample gateway_sample 7
     (final_state (handle_navigation_actions unicode_sample gateway_sample 7 (PInt 3) False
        (with_stack [PInt 1, PInt 2]))))) = Api (GetContentNode (PInt 1))"
    by simp_all
  from c1 c2' c3 np show ?thesis by blast
qed

subsection \<open>The order of the input router\<close>

text \<open>
  C2, as stated, fails in its last part. After \<open>/start\<close>, the name "alice" and
  \<open>/start\<close> again, user 7 has both the awaiting-password and the awaiting-username
  entries. The text of the home label is then taken as a user name: the only output is
  the password prompt, no login is attempted, and the awaited password entry now holds
  the label.
\<close>

theorem password_priority_counterexample:
  "awaiting_password
     (final_state (start_handler 7
        (final_state (text_message_handler unicode_sample gateway_sample 7 (ascii ''alice'')
           (final_state (start_handler 7 init_state)))))) 7 = Some (ascii ''alice'') \<and>
   events_of (text_message_handler unicode_sample gateway_sample 7 home_button_text
     (final_state (start_handler 7
        (final_state (text_message_handler unicode_sample gateway_sample 7 (ascii ''alice'')
           (final_state (start_handler 7 init_state))))))) = [SendMessage 7 AskPassword None] \<and>
   awaiting_password
     (final_state (text_message_handler unicode_sample gateway_sample 7 home_button_text
        (final_state (start_handler 7
           (final_state (text_message_handler unicode_sample gateway_sample 7 (ascii ''alice'')
              (final_state (start_handler 7 init_state)))))))) 7 = Some home_button_text"
  by (simp add: start_handler_def text_message_handler_def handle_username_input_def
      init_state_def py_strip_def strip_by_def is_space_def ascii_def home_button_text_def Let_def)

text \<open>
  C2, amended. The router decides in this order: a user with an awaiting-username entry
  has the text stored as the name and is asked for the password; otherwise a user with
  an awaiting-password entry has any text, also one that normalises to the back or home
  label, used as the password of a login attempt with the stored name, and the entry is
  removed; otherwise the back label, then the home label, then conversation creation,
  then message sending, then the lookup of the normalised text among the actions.
\<close>

theorem router_priority:
  "(awaiting_username s u \<noteq> None \<longrightarrow>
      text_message_handler U g u t s =
        Inr (s\<lparr>awaiting_username := (awaiting_username s)(u := None),
               awaiting_password := (awaiting_password s)(u \<mapsto> py_strip t)\<rparr>,
             [SendMessage u AskPassword None])) \<and>
   (awaiting_username s u = None \<and> awaiting_password s u = Some name \<longrightarrow>
      text_message_handler U g u t s = handle_password_input U g u t s \<and>
      awaiting_password (final_state (text_message_handler U g u t s)) u = None \<and>
      hd (events_of (text_message_handler U g u t s)) = Api (Login name (py_strip t) u)) \<and>
   (awaiting_username s u = None \<and> awaiting_password s u = None \<longrightarrow>
      text_message_handler U g u t s =
        (if normalize_text U t = normalize_text U back_button_text
           then handle_back_action U g u s
         else if normalize_text U t = normalize_text U home_button_text
           then handle_home_action U g u s
         else if creating_conversation s u \<noteq> None
           then handle_conversation_creation U g u t s
         else if u \<in> waiting_for_message s
           then handle_send_message U g u t s
         else handle_navigation_or_fallback U g u (normalize_text U t) s))"
proof (intro conjI impI)
  assume "awaiting_username s u \<noteq> None"
  then show "text_message_handler U g u t s =
        Inr (s\<lparr>awaiting_username := (awaiting_username s)(u := None),
               awaiting_password := (awaiting_password s)(u \<mapsto> py_strip t)\<rparr>,
             [SendMessage u AskPassword None])"
    by (auto simp: text_message_handler_def handle_username_input_def Let_def)
next
  assume a: "awaiting_username s u = None \<and> awaiting_password s u = Some name"
  then show eq: "text_message_handler U g u t s = handle_password_input U g u t s"
    by (auto simp: text_message_handler_def Let_def)
  show "awaiting_password (final_state (text_message_handler U g u t s)) u = None"
    unfolding eq using a
    by (simp add: handle_password_input_def api_login_def reset_to_root_menu_state Let_def
        split_beta split: option.splits)
  show "hd (events_of (text_message_handler U g u t s)) = Api (Login name (py_strip t) u)"
    unfolding eq using a
    by (simp add: handle_password_input_def api_login_def Let_def split_beta
        split: option.splits)
next
  assume "awaiting_username s u = None \<and> awaiting_password s u = None"
  then show "text_message_handler U g u t s =
        (if normalize_text U t = normalize_text U back_button_text
           then handle_back_action U g u s
         else if normalize_text U t = normalize_text U home_button_text
           then handle_home_action U g u s
         else if creating_conversation s u \<noteq> None
           then handle_conversation_creation U g u t s
         else if u \<in> waiting_for_message s
           then handle_send_message U g u t s
         else handle_navigation_or_fallback U g u (normalize_text U t) s)"
    by (auto simp: text_message_handler_def Let_def dom_def)
qed

theorem router_priority_witness:
  "awaiting_username password_pending 7 = None \<and>
   awaiting_password password_pending 7 = Some (ascii ''alice'') \<and>
   hd (events_of (text_message_handler unicode_sample gateway_sample 7 home_button_text
         password_pending)) = Api (Login (ascii ''alice'') home_button_text 7) \<and>
   awaiting_password (final_state (text_message_handler unicode_sample gateway_sample 7
         home_button_text password_pending)) 7 = None"
proof -
  have a: "awaiting_username password_pending 7 = None \<and>
           awaiting_password password_pending 7 = Some (ascii ''alice'')"
    by (simp add: password_pending_def init_state_def)
  have b: "py_strip home_button_text = home_button_text"
    by (simp add: py_strip_def strip_by_def is_space_def home_button_text_def)
  from router_priority [of password_pending 7 unicode_sample gateway_sample home_button_text
      "ascii ''alice''"] a
  have "awaiting_password (final_state (text_message_handler unicode_sample gateway_sample 7
          home_button_text password_pending)) 7 = None \<and>
        hd (events_of (text_message_handler unicode_sample gateway_sample 7 home_button_text
          password_pending)) = Api (Login (ascii ''alice'') (py_strip home_button_text) 7)"
    by blast
  with a show ?thesis unfolding b by blast
qed

subsection \<open>Calls that fail\<close>

text \<open>
  C7, as stated, fails: only some failed calls are answered by a "try later" text. With
  the gateway down, the list of conversations is answered by the text for a user who
  has no conversation; a conversation created while the listing fails is announced by
  the success banner over a keyboard without tickets; a ticket's messages are answered
  by "the conversation is empty" and the prompt for a new message; the root node by "the
  main menu could not be loaded"; the login by "wrong credentials, start again". None of
  these is one of the "try later" texts.
\<close>

theorem gateway_failure_counterexample:
  "events_of (handle_navigation_actions unicode_sample gateway_down 7
      (PStr ''list_conversations'') False (with_stack [PInt 1])) =
     [Api GetUserTickets, SendMessage 7 NoConversations None] \<and>
   \<not> try_later NoConversations \<and>
   events_of (handle_conversation_creation unicode_sample gateway_listing_down 7
      (ascii ''Billing'') creating_pending) =
     [Api (CreateTicket 7 (ascii ''Billing'')), Api GetUserTickets,
      SendMessage 7 (ConversationCreated (ascii ''Billing''))
        (Some [[back_button_text, home_button_text]])] \<and>
   \<not> try_later (ConversationCreated (ascii ''Billing'')) \<and>
   events_of (handle_navigation_actions unicode_sample gateway_down 7
      (PStr (ticket_action 5)) False (with_stack [PInt 1])) =
     [Api (GetTicketMessages 5), SendMessage 7 ConversationEmpty None,
      SendMessage 7 WriteNewMessage (Some [[back_button_text, home_button_text]])] \<and>
   \<not> try_later ConversationEmpty \<and> \<not> try_later WriteNewMessage \<and>
   events_of (handle_home_action unicode_sample gateway_down 7 (with_stack [PInt 1])) =
     [Api GetRootNode, SendMessage 7 RootLoadFailed None] \<and>
   \<not> try_later RootLoadFailed \<and>
   events_of (handle_password_input unicode_sample gateway_down 7 (ascii ''secret'')
      password_pending) =
     [Api (Login (ascii ''alice'') (ascii ''secret'') 7), SendMessage 7 BadCredentials None] \<and>
   \<not> try_later BadCredentials"
proof -
  have strip: "py_strip (ascii ''Billing'') = ascii ''Billing''"
    "py_strip (ascii ''secret'') = ascii ''secret''"
    by (simp_all add: py_strip_def strip_by_def is_space_def ascii_def)
  have 1: "events_of (handle_navigation_actions unicode_sample gateway_down 7
      (PStr ''list_conversations'') False (with_stack [PInt 1])) =
     [Api GetUserTickets, SendMessage 7 NoConversations None]"
    by (simp add: handle_navigation_actions_def show_user_conversations_def gateway_down_def
        Let_def)
  have 2: "events_of (handle_conversation_creation unicode_sample gateway_listing_down 7
      (ascii ''Billing'') creating_pending) =
     [Api (CreateTicket 7 (ascii ''Billing'')), Api GetUserTickets,
      SendMessage 7 (ConversationCreated (ascii ''Billing''))
        (Some [[back_button_text, home_button_text]])]"
    by (simp add: handle_conversation_creation_def gateway_listing_down_def gateway_sample_def
        build_user_tickets_keyboard_def markup_add_def strip Let_def)
  have 3: "events_of (handle_navigation_actions unicode_sample gateway_down 7
      (PStr (ticket_action 5)) False (with_stack [PInt 1])) =
     [Api (GetTicketMessages 5), SendMessage 7 ConversationEmpty None,
      SendMessage 7 WriteNewMessage (Some [[back_button_text, home_button_text]])]"
    by (simp add: handle_navigation_actions_def ticket_action_not_fixed is_str_def str_of_def
        startswith_ticket_action show_ticket_messages_def split_ticket_action py_int_py_str
        build_ticket_chat_keyboard_def markup_add_def gateway_down_def Let_def)
  have 4: "events_of (handle_home_action unicode_sample gateway_down 7 (with_stack [PInt 1])) =
     [Api GetRootNode, SendMessage 7 RootLoadFailed None]"
    by (simp add: handle_home_action_def reset_to_root_menu_def gateway_down_def)
  have 5: "events_of (handle_password_input unicode_sample gateway_down 7 (ascii ''secret'')
      password_pending) =
     [Api (Login (ascii ''alice'') (ascii ''secret'') 7), SendMessage 7 BadCredentials None]"
    by (simp add: handle_password_input_def api_login_def gateway_down_def password_pending_def
        init_state_def strip)
  from 1 2 3 4 5 show ?thesis by simp
qed

text \<open>
  C7, amended. At every place where the program calls the gateway, a call that returns
  nothing makes no handler raise, and the user is sent a text. Fetching a content
  node, creating a ticket and sending a message are answered by a "try later" text and
  leave the session as it was (creating a ticket also clears its flag). The root node is
  answered by "the main menu could not be loaded" (after a login that succeeded too,
  and with the hint at authentication when the menu fetches the root itself), the login
  by "wrong credentials, start again". A failed listing is shown as an empty list: "you
  have no conversations" in the list of conversations, the success banner over a
  keyboard of back and home only after a ticket was created, and "the conversation is
  empty" for a ticket's messages, where the ticket is opened all the same.
\<close>

theorem gateway_failure_recovered:
  "(get_content_node g v = None \<longrightarrow>
      navigate_content_node U g u v replay s =
        (s, [Api (GetContentNode v), SendMessage u SectionUnavailableTryLater None])) \<and>
   (create_ticket g u (py_strip t) = None \<longrightarrow>
      handle_conversation_creation U g u t s =
        Inr (s\<lparr>creating_conversation := (creating_conversation s)(u := None)\<rparr>,
             [Api (CreateTicket u (py_strip t)), SendMessage u CreateFailedTryLater None])) \<and>
   (create_ticket g u (py_strip t) = Some \<lparr>cr_ticket_id = Some new_id\<rparr> \<and>
    get_user_tickets g = None \<longrightarrow>
      handle_conversation_creation U g u t s =
        Inr (s\<lparr>creating_conversation := (creating_conversation s)(u := None),
               user_nav_stack := (user_nav_stack s)
                 (u \<mapsto> (case user_nav_stack s u of None \<Rightarrow> [] | Some xs \<Rightarrow> xs) @
                         [PStr ''list_conversations'']),
               normalized_button_actions := (normalized_button_actions s)
                 (normalize_text U back_button_text \<mapsto> PStr ''back'',
                  normalize_text U home_button_text \<mapsto> PStr ''home'')\<rparr>,
             [Api (CreateTicket u (py_strip t)), Api GetUserTickets,
              SendMessage u (ConversationCreated (py_strip t))
                (Some [[back_button_text, home_button_text]])])) \<and>
   (user_ticket_id s u = Some tid \<and> tid \<noteq> 0 \<and> send_message_to_conversation g tid t = None \<longrightarrow>
      handle_send_message U g u t s =
        Inr (s, [Api (SendMessageToConversation tid t),
                 SendMessage u SendFailedTryLater None])) \<and>
   (get_root_node g = None \<longrightarrow>
      reset_to_root_menu U g u s =
        (s, [Api GetRootNode, SendMessage u RootLoadFailed None]) \<and>
      handle_home_action U g u s =
        Inr (clear_ticket u s, [Api GetRootNode, SendMessage u RootLoadFailed None])) \<and>
   (get_root_node g = None \<and> api_token s = Some tok \<and> tok \<noteq> [] \<longrightarrow>
      show_main_menu U g u None s =
        (s, [Api GetRootNode, SendMessage u RootLoadFailedAuth None])) \<and>
   (awaiting_password s u = Some name \<and> login g name (py_strip t) u = None \<longrightarrow>
      handle_password_input U g u t s =
        Inr (s\<lparr>awaiting_password := (awaiting_password s)(u := None)\<rparr>,
             [Api (Login name (py_strip t) u), SendMessage u BadCredentials None])) \<and>
   (awaiting_password s u = Some name \<and>
    login g name (py_strip t) u = Some \<lparr>lr_token = Some tok\<rparr> \<and> get_root_node g = None \<longrightarrow>
      handle_password_input U g u t s =
        Inr (s\<lparr>awaiting_password := (awaiting_password s)(u := None), api_token := Some tok\<rparr>,
             [Api (Login name (py_strip t) u), Api GetRootNode,
              SendMessage u RootLoadFailed None])) \<and>
   (get_user_tickets g = None \<longrightarrow>
      show_user_conversations U g u replay s =
        (if replay then s
         else s\<lparr>user_nav_stack := (user_nav_stack s)
                 (u \<mapsto> (case user_nav_stack s u of None \<Rightarrow> [] | Some xs \<Rightarrow> xs) @
                         [PStr ''list_conversations''])\<rparr>,
         [Api GetUserTickets, SendMessage u NoConversations None])) \<and>
   (get_ticket_messages g tid = None \<longrightarrow>
      events_of (show_ticket_messages U g u (ticket_action tid) replay s) =
        [Api (GetTicketMessages tid), SendMessage u ConversationEmpty None,
         SendMessage u WriteNewMessage (Some [[back_button_text, home_button_text]])] \<and>
      (\<exists>s'. show_ticket_messages U g u (ticket_action tid) replay s =
              Inr (s', events_of (show_ticket_messages U g u (ticket_action tid) replay s)) \<and>
            user_ticket_id s' u = Some tid \<and> u \<in> waiting_for_message s'))"
proof (intro conjI impI)
  assume "get_content_node g v = None"
  then show "navigate_content_node U g u v replay s =
        (s, [Api (GetContentNode v), SendMessage u SectionUnavailableTryLater None])"
    by (simp add: navigate_content_node_def)
next
  assume "create_ticket g u (py_strip t) = None"
  then show "handle_conversation_creation U g u t s =
        Inr (s\<lparr>creating_conversation := (creating_conversation s)(u := None)\<rparr>,
             [Api (CreateTicket u (py_strip t)), SendMessage u CreateFailedTryLater None])"
    by (simp add: handle_conversation_creation_def)
next
  assume "create_ticket g u (py_strip t) = Some \<lparr>cr_ticket_id = Some new_id\<rparr> \<and>
    get_user_tickets g = None"
  then show "handle_conversation_creation U g u t s =
        Inr (s\<lparr>creating_conversation := (creating_conversation s)(u := None),
               user_nav_stack := (user_nav_stack s)
                 (u \<mapsto> (case user_nav_stack s u of None \<Rightarrow> [] | Some xs \<Rightarrow> xs) @
                         [PStr ''list_conversations'']),
               normalized_button_actions := (normalized_button_actions s)
                 (normalize_text U back_button_text \<mapsto> PStr ''back'',
                  normalize_text U home_button_text \<mapsto> PStr ''home'')\<rparr>,
             [Api (CreateTicket u (py_strip t)), Api GetUserTickets,
              SendMessage u (ConversationCreated (py_strip t))
                (Some [[back_button_text, home_button_text]])])"
    by (simp add: handle_conversation_creation_def build_user_tickets_keyboard_def push_def
        markup_add_def Let_def)
next
  assume "user_ticket_id s u = Some tid \<and> tid \<noteq> 0 \<and> send_message_to_conversation g tid t = None"
  then show "handle_send_message U g u t s =
        Inr (s, [Api (SendMessageToConversation tid t),
                 SendMessage u SendFailedTryLater None])"
    by (simp add: handle_send_message_def)
next
  assume "get_root_node g = None"
  then show "reset_to_root_menu U g u s =
        (s, [Api GetRootNode, SendMessage u RootLoadFailed None])"
    by (simp add: reset_to_root_menu_def)
next
  assume "get_root_node g = None"
  then show "handle_home_action U g u s =
        Inr (clear_ticket u s, [Api GetRootNode, SendMessage u RootLoadFailed None])"
    by (simp add: handle_home_action_def reset_to_root_menu_def)
next
  assume "get_root_node g = None \<and> api_token s = Some tok \<and> tok \<noteq> []"
  then show "show_main_menu U g u None s =
        (s, [Api GetRootNode, SendMessage u RootLoadFailedAuth None])"
    by (simp add: show_main_menu_def)
next
  assume "awaiting_password s u = Some name \<and> login g name (py_strip t) u = None"
  then show "handle_password_input U g u t s =
        Inr (s\<lparr>awaiting_password := (awaiting_password s)(u := None)\<rparr>,
             [Api (Login name (py_strip t) u), SendMessage u BadCredentials None])"
    by (simp add: handle_password_input_def api_login_def)
next
  assume "awaiting_password s u = Some name \<and>
    login g name (py_strip t) u = Some \<lparr>lr_token = Some tok\<rparr> \<and> get_root_node g = None"
  then show "handle_password_input U g u t s =
        Inr (s\<lparr>awaiting_password := (awaiting_password s)(u := None), api_token := Some tok\<rparr>,
             [Api (Login name (py_strip t) u), Api GetRootNode,
              SendMessage u RootLoadFailed None])"
    by (simp add: handle_password_input_def api_login_def reset_to_root_menu_def)
next
  assume "get_user_tickets g = None"
  then show "show_user_conversations U g u replay s =
        (if replay then s
         else s\<lparr>user_nav_stack := (user_nav_stack s)
                 (u \<mapsto> (case user_nav_stack s u of None \<Rightarrow> [] | Some xs \<Rightarrow> xs) @
                         [PStr ''list_conversations''])\<rparr>,
         [Api GetUserTickets, SendMessage u NoConversations None])"
    by (simp add: show_user_conversations_def push_def)
next
  assume m: "get_ticket_messages g tid = None"
  then show "events_of (show_ticket_messages U g u (ticket_action tid) replay s) =
        [Api (GetTicketMessages tid), SendMessage u ConversationEmpty None,
         SendMessage u WriteNewMessage (Some [[back_button_text, home_button_text]])]"
    by (simp add: show_ticket_messages_def split_ticket_action py_int_py_str
        build_ticket_chat_keyboard_def markup_add_def Let_def)
  from m show "\<exists>s'. show_ticket_messages U g u (ticket_action tid) replay s =
              Inr (s', events_of (show_ticket_messages U g u (ticket_action tid) replay s)) \<and>
            user_ticket_id s' u = Some tid \<and> u \<in> waiting_for_message s'"
    by (simp add: show_ticket_messages_def split_ticket_action py_int_py_str
        build_ticket_chat_keyboard_def markup_add_def Let_def)
qed

theorem gateway_failure_recovered_witness:
  "get_content_node gateway_down (PInt 2) = None \<and>
   navigate_content_node unicode_sample gateway_down 7 (PInt 2) True (with_stack [PInt 1]) =
      (with_stack [PInt 1],
       [Api (GetContentNode (PInt 2)), SendMessage 7 SectionUnavailableTryLater None]) \<and>
   create_ticket gateway_down 7 (py_strip (ascii ''Billing'')) = None \<and>
   handle_conversation_creation unicode_sample gateway_down 7 (ascii ''Billing'') creating_pending =
      Inr (creating_pending
             \<lparr>creating_conversation := (creating_conversation creating_pending)(7 := None)\<rparr>,
           [Api (CreateTicket 7 (py_strip (ascii ''Billing''))),
            SendMessage 7 CreateFailedTryLater None]) \<and>
   (create_ticket gateway_listing_down 7 (py_strip (ascii ''Billing'')) = Some \<lparr>cr_ticket_id = Some 0\<rparr> \<and>
      get_user_tickets gateway_listing_down = None) \<and>
   handle_conversation_creation unicode_sample gateway_listing_down 7 (ascii ''Billing'')
        creating_pending =
      Inr (creating_pending
             \<lparr>creating_conversation := (creating_conversation creating_pending)(7 := None),
                user_nav_stack := (user_nav_stack creating_pending)
                  (7 \<mapsto> (case user_nav_stack creating_pending 7 of None \<Rightarrow> [] | Some xs \<Rightarrow> xs) @
                          [PStr ''list_conversations'']),
                normalized_button_actions := (normalized_button_actions creating_pending)
                  (normalize_text unicode_sample back_button_text \<mapsto> PStr ''back'',
                   normalize_text unicode_sample home_button_text \<mapsto> PStr ''home'')\<rparr>,
           [Api (CreateTicket 7 (py_strip (ascii ''Billing''))), Api GetUserTickets,
            SendMessage 7 (ConversationCreated (py_strip (ascii ''Billing'')))
              (Some [[back_button_text, home_button_text]])]) \<and>
   (user_ticket_id ticket_open 7 = Some 5 \<and> (5::int) \<noteq> 0 \<and>
      send_message_to_conversation gateway_down 5 (ascii ''thanks'') = None) \<and>
   handle_send_message unicode_sample gateway_down 7 (ascii ''thanks'') ticket_open =
      Inr (ticket_open,
           [Api (SendMessageToConversation 5 (ascii ''thanks'')),
            SendMessage 7 SendFailedTryLater None]) \<and>
   get_root_node gateway_down = None \<and>
   reset_to_root_menu unicode_sample gateway_down 7 (with_stack [PInt 1]) =
      (with_stack [PInt 1], [Api GetRootNode, SendMessage 7 RootLoadFailed None]) \<and>
   handle_home_action unicode_sample gateway_down 7 (with_stack [PInt 1]) =
      Inr (clear_ticket 7 (with_stack [PInt 1]),
           [Api GetRootNode, SendMessage 7 RootLoadFailed None]) \<and>
   (get_root_node gateway_down = None \<and> api_token logged_in = Some (ascii ''tok'') \<and>
      ascii ''tok'' \<noteq> []) \<and>
   show_main_menu unicode_sample gateway_down 7 None logged_in =
      (logged_in, [Api GetRootNode, SendMessage 7 RootLoadFailedAuth None]) \<and>
   (awaiting_password password_pending 7 = Some (ascii ''alice'') \<and>
      login gateway_down (ascii ''alice'') (py_strip (ascii ''secret'')) 7 = None) \<and>
   handle_password_input unicode_sample gateway_down 7 (ascii ''secret'') password_pending =
      Inr (password_pending
             \<lparr>awaiting_password := (awaiting_password password_pending)(7 := None)\<rparr>,
           [Api (Login (ascii ''alice'') (py_strip (ascii ''secret'')) 7),
            SendMessage 7 BadCredentials None]) \<and>
   (awaiting_password password_pending 7 = Some (ascii ''alice'') \<and>
      login gateway_root_down (ascii ''alice'') (py_strip (ascii ''secret'')) 7 =
        Some \<lparr>lr_token = Some (ascii ''tok'')\<rparr> \<and>
      get_root_node gateway_root_down = None) \<and>
   handle_password_input unicode_sample gateway_root_down 7 (ascii ''secret'') password_pending =
      Inr (password_pending
             \<lparr>awaiting_password := (awaiting_password password_pending)(7 := None),
                api_token := Some (ascii ''tok'')\<rparr>,
           [Api (Login (ascii ''alice'') (py_strip (ascii ''secret'')) 7), Api GetRootNode,
            SendMessage 7 RootLoadFailed None]) \<and>
   get_user_tickets gateway_down = None \<and>
   show_user_conversations unicode_sample gateway_down 7 False (with_stack [PInt 1]) =
      (if False then with_stack [PInt 1]
       else (with_stack [PInt 1])\<lparr>user_nav_stack := (user_nav_stack (with_stack [PInt 1]))
               (7 \<mapsto> (case user_nav_stack (with_stack [PInt 1]) 7 of None \<Rightarrow> [] | Some xs \<Rightarrow> xs) @
                       [PStr ''list_conversations''])\<rparr>,
       [Api GetUserTickets, SendMessage 7 NoConversations None]) \<and>
   get_ticket_messages gateway_down 5 = None \<and>
   events_of (show_ticket_messages unicode_sample gateway_down 7 (ticket_action 5) False
        (with_stack [PInt 1])) =
      [Api (GetTicketMessages 5), SendMessage 7 ConversationEmpty None,
       SendMessage 7 WriteNewMessage (Some [[back_button_text, home_button_text]])] \<and>
   (\<exists>s'. show_ticket_messages unicode_sample gateway_down 7 (ticket_action 5) False
             (with_stack [PInt 1]) =
           Inr (s', events_of (show_ticket_messages unicode_sample gateway_down 7
                  (ticket_action 5) False (with_stack [PInt 1]))) \<and>
         user_ticket_id s' 7 = Some 5 \<and> 7 \<in> waiting_for_message s')"
proof -
  have strip: "py_strip (ascii ''secret'') = ascii ''secret''"
    by (simp add: py_strip_def strip_by_def is_space_def ascii_def)
  have h1: "get_content_node gateway_down (PInt 2) = None"
    by (simp add: gateway_down_def)
  have c1: "navigate_content_node unicode_sample gateway_down 7 (PInt 2) True (with_stack [PInt 1]) =
      (with_stack [PInt 1],
       [Api (GetContentNode (PInt 2)), SendMessage 7 SectionUnavailableTryLater None])"
    by (rule gateway_failure_recovered [where g = gateway_down and v = "PInt 2" and U = unicode_sample and u = 7 and replay = True and s = "with_stack [PInt 1]",
          THEN conjunct1, rule_format, OF h1])
  have h2: "create_ticket gateway_down 7 (py_strip (ascii ''Billing'')) = None"
    by (simp add: gateway_down_def)
  have c2: "handle_conversation_creation unicode_sample gateway_down 7 (ascii ''Billing'') creating_pending =
      Inr (creating_pending
             \<lparr>creating_conversation := (creating_conversation creating_pending)(7 := None)\<rparr>,
           [Api (CreateTicket 7 (py_strip (ascii ''Billing''))),
            SendMessage 7 CreateFailedTryLater None])"
    by (rule gateway_failure_recovered [where g = gateway_down and U = unicode_sample and u = 7 and t = "ascii ''Billing''" and s = creating_pending,
          THEN conjunct2, THEN conjunct1, rule_format, OF h2])
  have h3: "create_ticket gateway_listing_down 7 (py_strip (ascii ''Billing'')) = Some \<lparr>cr_ticket_id = Some 0\<rparr> \<and>
      get_user_tickets gateway_listing_down = None"
    by (simp add: gateway_listing_down_def gateway_sample_def)
  have c3: "handle_conversation_creation unicode_sample gateway_listing_down 7 (ascii ''Billing'')
        creating_pending =
      Inr (creating_pending
             \<lparr>creating_conversation := (creating_conversation creating_pending)(7 := None),
                user_nav_stack := (user_nav_stack creating_pending)
                  (7 \<mapsto> (case user_nav_stack creating_pending 7 of None \<Rightarrow> [] | Some xs \<Rightarrow> xs) @
                          [PStr ''list_conversations'']),
                normalized_button_actions := (normalized_button_actions creating_pending)
                  (normalize_text unicode_sample back_button_text \<mapsto> PStr ''back'',
                   normalize_text unicode_sample home_button_text \<mapsto> PStr ''home'')\<rparr>,
           [Api (CreateTicket 7 (py_strip (ascii ''Billing''))), Api GetUserTickets,
            SendMessage 7 (ConversationCreated (py_strip (ascii ''Billing'')))
              (Some [[back_button_text, home_button_text]])])"
    by (rule gateway_failure_recovered [where g = gateway_listing_down and U = unicode_sample and u = 7 and t = "ascii ''Billing''" and s = creating_pending and new_id = 0,
          THEN conjunct2, THEN conjunct2, THEN conjunct1, rule_format, OF h3])
  have h4: "user_ticket_id ticket_open 7 = Some 5 \<and> (5::int) \<noteq> 0 \<and>
      send_message_to_conversation gateway_down 5 (ascii ''thanks'') = None"
    by (simp add: gateway_down_def ticket_open_def with_stack_def init_state_def)
  have c4: "handle_send_message unicode_sample gateway_down 7 (ascii ''thanks'') ticket_open =
      Inr (ticket_open,
           [Api (SendMessageToConversation 5 (ascii ''thanks'')),
            SendMessage 7 SendFailedTryLater None])"
    by (rule gateway_failure_recovered [where g = gateway_down and U = unicode_sample and u = 7 and t = "ascii ''thanks''" and s = ticket_open and tid = 5,
          THEN conjunct2, THEN conjunct2, THEN conjunct2, THEN conjunct1, rule_format, OF h4])
  have h5: "get_root_node gateway_down = None"
    by (simp add: gateway_down_def)
  note r5 = gateway_failure_recovered [where g = gateway_down and U = unicode_sample and u = 7 and s = "with_stack [PInt 1]",
          THEN conjunct2, THEN conjunct2, THEN conjunct2, THEN conjunct2, THEN conjunct1, rule_format, OF h5]
  have c5a: "reset_to_root_menu unicode_sample gateway_down 7 (with_stack [PInt 1]) =
      (with_stack [PInt 1], [Api GetRootNode, SendMessage 7 RootLoadFailed None])"
    by (rule r5 [THEN conjunct1])
  have c5b: "handle_home_action unicode_sample gateway_down 7 (with_stack [PInt 1]) =
      Inr (clear_ticket 7 (with_stack [PInt 1]),
           [Api GetRootNode, SendMessage 7 RootLoadFailed None])"
    by (rule r5 [THEN conjunct2])
  have h6: "get_root_node gateway_down = None \<and> api_token logged_in = Some (ascii ''tok'') \<and>
      ascii ''tok'' \<noteq> []"
    by (simp add: gateway_down_def logged_in_def with_stack_def init_state_def ascii_def)
  have c6: "show_main_menu unicode_sample gateway_down 7 None logged_in =
      (logged_in, [Api GetRootNode, SendMessage 7 RootLoadFailedAuth None])"
    by (rule gateway_failure_recovered [where g = gateway_down and U = unicode_sample and u = 7 and s = logged_in and tok = "ascii ''tok''",
          THEN conjunct2, THEN conjunct2, THEN conjunct2, THEN conjunct2, THEN conjunct2, THEN conjunct1, rule_format, OF h6])
  have h7: "awaiting_password password_pending 7 = Some (ascii ''alice'') \<and>
      login gateway_down (ascii ''alice'') (py_strip (ascii ''secret'')) 7 = None"
    by (simp add: gateway_down_def password_pending_def init_state_def)
  have c7: "handle_password_input unicode_sample gateway_down 7 (ascii ''secret'') password_pending =
      Inr (password_pending
             \<lparr>awaiting_password := (awaiting_password password_pending)(7 := None)\<rparr>,
           [Api (Login (ascii ''alice'') (py_strip (ascii ''secret'')) 7),
            SendMessage 7 BadCredentials None])"
    by (rule gateway_failure_recovered [where g = gateway_down and U = unicode_sample and u = 7 and s = password_pending and t = "ascii ''secret''" and name = "ascii ''alice''",
          THEN conjunct2, THEN conjunct2, THEN conjunct2, THEN conjunct2, THEN conjunct2, THEN conjunct2, THEN conjunct1, rule_format, OF h7])
  have h8: "awaiting_password password_pending 7 = Some (ascii ''alice'') \<and>
      login gateway_root_down (ascii ''alice'') (py_strip (ascii ''secret'')) 7 =
        Some \<lparr>lr_token = Some (ascii ''tok'')\<rparr> \<and>
      get_root_node gateway_root_down = None"
    by (simp add: gateway_root_down_def gateway_sample_def password_pending_def init_state_def strip)
  have c8: "handle_password_input unicode_sample gateway_root_down 7 (ascii ''secret'') password_pending =
      Inr (password_pending
             \<lparr>awaiting_password := (awaiting_password password_pending)(7 := None),
                api_token := Some (ascii ''tok'')\<rparr>,
           [Api (Login (ascii ''alice'') (py_strip (ascii ''secret'')) 7), Api GetRootNode,
            SendMessage 7 RootLoadFailed None])"
    by (rule gateway_failure_recovered [where g = gateway_root_down and U = unicode_sample and u = 7 and s = password_pending and t = "ascii ''secret''" and name = "ascii ''alice''" and tok = "ascii ''tok''",
          THEN conjunct2, THEN conjunct2, THEN conjunct2, THEN conjunct2, THEN conjunct2, THEN conjunct2, THEN conjunct2, THEN conjunct1, rule_format, OF h8])
  have h9: "get_user_tickets gateway_down = None"
    by (simp add: gateway_down_def)
  have c9: "show_user_conversations unicode_sample gateway_down 7 False (with_stack [PInt 1]) =
      (if False then with_stack [PInt 1]
       else (with_stack [PInt 1])\<lparr>user_nav_stack := (user_nav_stack (with_stack [PInt 1]))
               (7 \<mapsto> (case user_nav_stack (with_stack [PInt 1]) 7 of None \<Rightarrow> [] | Some xs \<Rightarrow> xs) @
                       [PStr ''list_conversations''])\<rparr>,
       [Api GetUserTickets, SendMessage 7 NoConversations None])"
    by (rule gateway_failure_recovered [where g = gateway_down and U = unicode_sample and u = 7 and replay = False and s = "with_stack [PInt 1]",
          THEN conjunct2, THEN conjunct2, THEN conjunct2, THEN conjunct2, THEN conjunct2, THEN conjunct2, THEN conjunct2, THEN conjunct2, THEN conjunct1, rule_format, OF h9])
  have h10: "get_ticket_messages gateway_down 5 = None"
    by (simp add: gateway_down_def)
  note r10 = gateway_failure_recovered [where g = gateway_down and U = unicode_sample and u = 7 and replay = False and s = "with_stack [PInt 1]" and tid = 5,
          THEN conjunct2, THEN conjunct2, THEN conjunct2, THEN conjunct2, THEN conjunct2, THEN conjunct2, THEN conjunct2, THEN conjunct2, THEN conjunct2, rule_format, OF h10]
  have c10a: "events_of (show_ticket_messages unicode_sample gateway_down 7 (ticket_action 5) False
        (with_stack [PInt 1])) =
      [Api (GetTicketMessages 5), SendMessage 7 ConversationEmpty None,
       SendMessage 7 WriteNewMessage (Some [[back_button_text, home_button_text]])]"
    by (rule r10 [THEN conjunct1])
  have c10b: "(\<exists>s'. show_ticket_messages unicode_sample gateway_down 7 (ticket_action 5) False
             (with_stack [PInt 1]) =
           Inr (s', events_of (show_ticket_messages unicode_sample gateway_down 7
                  (ticket_action 5) False (with_stack [PInt 1]))) \<and>
         user_ticket_id s' 7 = Some 5 \<and> 7 \<in> waiting_for_message s')"
    by (rule r10 [THEN conjunct2])
  show ?thesis
    by (intro conjI h1 c1 h2 c2 h3 c3 h4 c4 h5 c5a c5b h6 c6 h7 c7 h8 c8 h9 c9 h10 c10a c10b)
qed

subsection \<open>Waiting for a message, and the active ticket\<close>

text \<open>
  The invariant of C10: whoever is in the waiting-for-message set has an active ticket
  id. Every handler keeps it, so it holds in every reachable state.
\<close>

lemma waiting_has_ticket_clear [simp]:
  "waiting_has_ticket s \<Longrightarrow> waiting_has_ticket (clear_ticket u s)"
  by (simp add: waiting_has_ticket_def clear_ticket_def)

lemma waiting_has_ticket_frame:
  "waiting_for_message s' = waiting_for_message s \<Longrightarrow> user_ticket_id s' = user_ticket_id s \<Longrightarrow>
   waiting_has_ticket s \<Longrightarrow> waiting_has_ticket s'"
  by (simp add: waiting_has_ticket_def)

lemma reset_frame:
  "waiting_for_message (fst (reset_to_root_menu U g u s)) = waiting_for_message s"
  "user_ticket_id (fst (reset_to_root_menu U g u s)) = user_ticket_id s"
  by (simp_all add: reset_to_root_menu_state split: option.splits)

lemma node_frame:
  "waiting_for_message (fst (navigate_content_node U g u v b s)) = waiting_for_message s"
  "user_ticket_id (fst (navigate_content_node U g u v b s)) = user_ticket_id s"
  by (simp_all add: navigate_content_node_def push_def Let_def split_beta split: option.splits)

lemma pop_frame:
  "waiting_for_message (pop u s) = waiting_for_message s"
  "user_ticket_id (pop u s) = user_ticket_id s"
  by (simp_all add: pop_def)

lemma waiting_has_ticket_pop [simp]: "waiting_has_ticket (pop u s) = waiting_has_ticket s"
  by (simp add: waiting_has_ticket_def pop_def)

lemma waiting_has_ticket_navigation:
  "waiting_has_ticket s \<Longrightarrow>
   waiting_has_ticket (final_state (handle_navigation_actions U g u a b s))"
proof -
  assume inv: "waiting_has_ticket s"
  have t: "waiting_has_ticket (final_state (show_ticket_messages U g u x b s))" for x
    using inv
    by (simp add: show_ticket_messages_def waiting_has_ticket_def push_def
        build_ticket_chat_keyboard_def Let_def
        split: list.splits sum.splits)
  have r: "waiting_has_ticket (fst (reset_to_root_menu U g u s))"
    using inv by (rule waiting_has_ticket_frame [OF reset_frame])
  have n: "waiting_has_ticket (fst (navigate_content_node U g u v c s1))"
    if "waiting_has_ticket s1" for v c s1
    using that by (rule waiting_has_ticket_frame [OF node_frame])
  show ?thesis
    using inv
    by (simp add: handle_navigation_actions_def t r n Let_def)
       (simp add: waiting_has_ticket_def open_support_menu_def request_new_conversation_def
        show_user_conversations_def push_def Let_def split_beta
        split: option.splits list.splits)
qed

lemma waiting_has_ticket_text:
  "waiting_has_ticket s \<Longrightarrow>
   waiting_has_ticket (final_state (text_message_handler U g u t s))"
proof -
  assume inv: "waiting_has_ticket s"
  have 1: "waiting_has_ticket (final_state (handle_username_input u t s))"
    using inv by (simp add: handle_username_input_def waiting_has_ticket_def split: option.splits)
  have 2: "waiting_has_ticket (final_state (handle_password_input U g u t s))"
    using inv
    by (simp add: handle_password_input_def api_login_def Let_def split_beta
        waiting_has_ticket_def reset_frame split: option.splits)
  have 3: "waiting_has_ticket (final_state (handle_home_action U g u s))"
    using inv
    by (simp add: handle_home_action_def waiting_has_ticket_frame [OF reset_frame])
  have 4: "waiting_has_ticket (final_state (handle_conversation_creation U g u t s))"
    using inv
    by (simp add: handle_conversation_creation_def waiting_has_ticket_def push_def Let_def
        split_beta)
  have 5: "waiting_has_ticket (final_state (handle_send_message U g u t s))"
    using inv
    by (simp add: handle_send_message_def waiting_has_ticket_def Let_def split_beta
        split: option.splits)
  have 6: "waiting_has_ticket (final_state (handle_navigation_or_fallback U g u x s))" for x
    using inv
    by (simp add: handle_navigation_or_fallback_def waiting_has_ticket_navigation
        split: option.splits)
  have 7: "waiting_has_ticket (final_state (handle_back_action U g u s))"
    using inv
    by (simp add: handle_back_action_def waiting_has_ticket_navigation Let_def
        waiting_has_ticket_frame [OF reset_frame])
  show ?thesis
    by (simp add: text_message_handler_def Let_def 1 2 3 4 5 6 7)
qed

lemma waiting_has_ticket_reachable: "reachable U s \<Longrightarrow> waiting_has_ticket s"
proof (induction rule: reachable.induct)
  case r_init
  show ?case by (simp add: waiting_has_ticket_def init_state_def)
next
  case (r_start s user_id)
  then show ?case by (simp add: start_handler_def waiting_has_ticket_def)
next
  case (r_text s g user_id t)
  then show ?case by (simp add: waiting_has_ticket_text)
qed

text \<open>
  Under the invariant, the "no conversation selected" answer of the send-message
  handler can only come from the active ticket id 0.
\<close>

lemma fallback_only_for_zero:
  assumes "reachable U s" and "u \<in> waiting_for_message s"
    and "SendMessage u NoSelectedConversation None \<in>
           set (events_of (handle_send_message U g u t s))"
  shows "user_ticket_id s u = Some 0"
proof -
  from assms(1) have "waiting_has_ticket s" by (rule waiting_has_ticket_reachable)
  with assms(2) obtain tid where tid: "user_ticket_id s u = Some tid"
    by (auto simp: waiting_has_ticket_def)
  show ?thesis
  proof (cases "tid = 0")
    case True
    with tid show ?thesis by simp
  next
    case False
    with tid assms(3) show ?thesis
      by (simp add: handle_send_message_def Let_def split_beta split: if_splits)
  qed
qed

text \<open>The steps of user 7 towards the ticket 0, evaluated.\<close>

lemma zero_button: "ticket_button_text \<lparr>t_id = 0, conversation_name = None\<rparr> =
   ticket_prefix @ default_title_prefix @ [48]"
  by (simp add: ticket_button_text_def ascii_def py_str_def str_nat.simps digit_char_def)

lemma button0_norm:
  "normalize_text unicode_sample (ticket_prefix @ default_title_prefix @ [48]) =
    [0x1F4AC, 0x20, 0x431, 0x435, 0x441, 0x435, 0x434, 0x430, 0x20, 0x23, 48]"
  by (simp add: normalize_text_def unicode_sample_def sample_lower_cp_def sample_nfkc_cp_def
      py_strip_def strip_by_def is_space_def ticket_prefix_def default_title_prefix_def)

lemma labels_norm:
  "normalize_text unicode_sample back_button_text = [0x2B05, 0xFE0F, 0x20, 0x43D, 0x430, 0x437, 0x430, 0x434]"
  "normalize_text unicode_sample home_button_text = [0x1F3E0, 0x20, 0x432, 0x20, 0x43D, 0x430, 0x447, 0x430, 0x43B, 0x43E]"
  by (simp_all add: normalize_text_def unicode_sample_def sample_lower_cp_def sample_nfkc_cp_def
      py_strip_def strip_by_def is_space_def back_button_text_def home_button_text_def)

lemma hi_norm: "normalize_text unicode_sample (ascii ''hi'') = [104, 105]"
  by (simp add: normalize_text_def unicode_sample_def sample_lower_cp_def sample_nfkc_cp_def
      py_strip_def strip_by_def is_space_def ascii_def)

lemma listed_index:
  "normalized_button_actions ticket_zero_listed
     (normalize_text unicode_sample (ticket_prefix @ default_title_prefix @ [48])) =
     Some (PStr (ticket_action 0))"
  by (simp add: ticket_zero_listed_def handle_navigation_actions_def show_user_conversations_def
      gateway_sample_def build_user_tickets_keyboard_def zero_button button0_norm
      labels_norm Let_def)

lemma listed_flags:
  "awaiting_username ticket_zero_listed = Map.empty"
  "awaiting_password ticket_zero_listed = Map.empty"
  "creating_conversation ticket_zero_listed = Map.empty"
  "waiting_for_message ticket_zero_listed = {}"
  by (simp_all add: ticket_zero_listed_def handle_navigation_actions_def
      show_user_conversations_def gateway_sample_def push_def with_stack_def init_state_def
      Let_def split_beta)

lemma button0_not_label:
  "normalize_text unicode_sample (ticket_prefix @ default_title_prefix @ [48]) \<noteq>
     normalize_text unicode_sample back_button_text"
  "normalize_text unicode_sample (ticket_prefix @ default_title_prefix @ [48]) \<noteq>
     normalize_text unicode_sample home_button_text"
  by (simp_all add: button0_norm labels_norm)

lemma open_ticket_zero:
  "text_message_handler unicode_sample gateway_sample 7
     (ticket_prefix @ default_title_prefix @ [48]) ticket_zero_listed =
   handle_navigation_actions unicode_sample gateway_sample 7 (PStr (ticket_action 0)) False
     ticket_zero_listed"
  by (simp add: text_message_handler_def listed_flags button0_not_label listed_index
      handle_navigation_or_fallback_def Let_def)

lemma show_ticket_fields:
  "user_ticket_id (final_state (handle_navigation_actions U g u (PStr (ticket_action tid)) b s)) =
     (user_ticket_id s)(u \<mapsto> tid)"
  "waiting_for_message (final_state (handle_navigation_actions U g u (PStr (ticket_action tid)) b s)) =
     insert u (waiting_for_message s)"
  "awaiting_username (final_state (handle_navigation_actions U g u (PStr (ticket_action tid)) b s)) =
     awaiting_username s"
  "awaiting_password (final_state (handle_navigation_actions U g u (PStr (ticket_action tid)) b s)) =
     awaiting_password s"
  "creating_conversation (final_state (handle_navigation_actions U g u (PStr (ticket_action tid)) b s)) =
     creating_conversation s"
  by (simp_all add: handle_navigation_actions_def ticket_action_not_fixed is_str_def str_of_def
      startswith_ticket_action show_ticket_messages_def split_ticket_action py_int_py_str
      build_ticket_chat_keyboard_def push_def Let_def)

lemma hi_not_label:
  "normalize_text unicode_sample (ascii ''hi'') \<noteq> normalize_text unicode_sample back_button_text"
  "normalize_text unicode_sample (ascii ''hi'') \<noteq> normalize_text unicode_sample home_button_text"
  by (simp_all add: hi_norm labels_norm)

lemma send_with_ticket_zero:
  assumes "awaiting_username s 7 = None" and "awaiting_password s 7 = None"
    and "creating_conversation s 7 = None" and "7 \<in> waiting_for_message s"
    and "user_ticket_id s 7 = Some 0"
  shows "text_message_handler unicode_sample g 7 (ascii ''hi'') s =
           Inr (s, [SendMessage 7 NoSelectedConversation None])"
  using assms
  by (simp add: text_message_handler_def hi_not_label handle_send_message_def dom_def Let_def)

text \<open>
  C10. The invariant holds, but the branch is reachable: \<open>if ticket_id:\<close> in
  \<open>handle_send_message\<close> is false for the ticket id 0. User 7 taps the button of the
  ticket 0 in the list of conversations: the ticket view opens, the user is in the
  waiting-for-message set with the active ticket id 0. The next text, "hi", is answered
  by "no conversation selected" and is not sent.
\<close>

theorem ticket_zero_not_selected:
  "7 \<in> waiting_for_message
     (final_state (text_message_handler unicode_sample gateway_sample 7
        (ticket_prefix @ default_title_prefix @ [48]) ticket_zero_listed)) \<and>
   user_ticket_id
     (final_state (text_message_handler unicode_sample gateway_sample 7
        (ticket_prefix @ default_title_prefix @ [48]) ticket_zero_listed)) 7 = Some 0 \<and>
   events_of (text_message_handler unicode_sample gateway_sample 7 (ascii ''hi'')
     (final_state (text_message_handler unicode_sample gateway_sample 7
        (ticket_prefix @ default_title_prefix @ [48]) ticket_zero_listed))) =
     [SendMessage 7 NoSelectedConversation None]"
proof -
  let ?s = "final_state (handle_navigation_actions unicode_sample gateway_sample 7
              (PStr (ticket_action 0)) False ticket_zero_listed)"
  have f: "awaiting_username ?s 7 = None" "awaiting_password ?s 7 = None"
    "creating_conversation ?s 7 = None" "7 \<in> waiting_for_message ?s"
    "user_ticket_id ?s 7 = Some 0"
    by (simp_all add: show_ticket_fields listed_flags)
  show ?thesis
    unfolding open_ticket_zero
    using f by (simp add: send_with_ticket_zero [OF f])
qed

subsection \<open>The keyboard of a node\<close>

text \<open>
  The loop of \<open>make_keyboard\<close>, started with at most one pending button: the rows it
  adds are the rows of two of the pending button and the labels of the linked buttons;
  the dangling last row is added only when the last child button is linked.
\<close>

lemma loop_markup:
  assumes "length row \<le> 1" and "n = i + length bs"
  shows "fst (make_keyboard_loop U n i bs (mk, row, idx)) =
           mk @ rows_of_two
             (take (if bs \<noteq> [] \<and> next_node_id (last bs) \<noteq> None
                    then length (row @ map label_of (linked bs))
                    else 2 * (length (row @ map label_of (linked bs)) div 2))
                (row @ map label_of (linked bs)))"
  using assms
proof (induction bs arbitrary: i mk row idx)
  case Nil
  then show ?case by (cases row) (auto simp: linked_def)
next
  case (Cons b bs)
  show ?case
  proof (cases "next_node_id b")
    case None
    then have "fst (make_keyboard_loop U n i (b # bs) (mk, row, idx)) =
               fst (make_keyboard_loop U n (i + 1) bs (mk, row, idx))"
      by simp
    also have "\<dots> = mk @ rows_of_two
             (take (if bs \<noteq> [] \<and> next_node_id (last bs) \<noteq> None
                    then length (row @ map label_of (linked bs))
                    else 2 * (length (row @ map label_of (linked bs)) div 2))
                (row @ map label_of (linked bs)))"
      using Cons.prems by (intro Cons.IH) auto
    finally show ?thesis using None by (auto simp: linked_def)
  next
    case (Some nid)
    show ?thesis
    proof (cases row)
      case Nil
      show ?thesis
      proof (cases "bs = []")
        case True
        with Nil Some Cons.prems show ?thesis
          by (simp add: linked_def label_of_def markup_add_def Let_def)
      next
        case False
        with Cons.prems have ni: "int i \<noteq> int n - 1" by auto
        have "fst (make_keyboard_loop U n i (b # bs) (mk, row, idx)) =
              fst (make_keyboard_loop U n (i + 1) bs
                (mk, [label_of b], idx(normalize_text U (label_of b) \<mapsto> PInt nid)))"
          using Nil Some ni by (simp add: label_of_def Let_def)
        also have "\<dots> = mk @ rows_of_two
             (take (if bs \<noteq> [] \<and> next_node_id (last bs) \<noteq> None
                    then length ([label_of b] @ map label_of (linked bs))
                    else 2 * (length ([label_of b] @ map label_of (linked bs)) div 2))
                ([label_of b] @ map label_of (linked bs)))"
          using Cons.prems by (intro Cons.IH) auto
        finally show ?thesis using Nil Some False by (simp add: linked_def)
      qed
    next
      case (Cons y ys)
      with Cons.prems have row: "row = [y]" by simp
      have "fst (make_keyboard_loop U n i (b # bs) (mk, row, idx)) =
            fst (make_keyboard_loop U n (i + 1) bs
              (mk @ [[y, label_of b]], [], idx(normalize_text U (label_of b) \<mapsto> PInt nid)))"
        using row Some by (simp add: label_of_def Let_def markup_add_def)
      also have "\<dots> = (mk @ [[y, label_of b]]) @ rows_of_two
             (take (if bs \<noteq> [] \<and> next_node_id (last bs) \<noteq> None
                    then length ([] @ map label_of (linked bs))
                    else 2 * (length ([] @ map label_of (linked bs)) div 2))
                ([] @ map label_of (linked bs)))"
        using Cons.prems by (intro Cons.IH) auto
      finally show ?thesis using row Some by (auto simp: linked_def)
    qed
  qed
qed

lemma find_app:
  "find P (xs @ ys) = (case find P xs of Some y \<Rightarrow> Some y | None \<Rightarrow> find P ys)"
  by (induction xs) auto

lemma find_Some_mem: "find P xs = Some y \<Longrightarrow> y \<in> set xs \<and> P y"
  by (induction xs) (auto split: if_splits)

lemma loop_index:
  "snd (snd (make_keyboard_loop U n i bs (mk, row, idx))) k =
     (case last_linked U bs k of
        Some b \<Rightarrow> map_option PInt (next_node_id b)
      | None \<Rightarrow> idx k)"
proof (induction bs arbitrary: i mk row idx)
  case Nil
  show ?case by (simp add: last_linked_def linked_def)
next
  case (Cons b bs)
  show ?case
  proof (cases "next_node_id b")
    case None
    then show ?thesis using Cons.IH by (simp add: last_linked_def linked_def)
  next
    case (Some nid)
    have f: "last_linked U (b # bs) k =
             (case last_linked U bs k of
                Some b' \<Rightarrow> Some b'
              | None \<Rightarrow> if normalize_text U (label_of b) = k then Some b else None)"
      using Some by (simp add: last_linked_def linked_def find_app split: option.splits)
    show ?thesis
      using Some Cons.IH
      by (simp add: f label_of_def Let_def split: option.splits)
  qed
qed

text \<open>
  C9, as stated, fails: a child button without a \<open>next_node_id\<close> is skipped by the
  guard of the loop. It is not in the markup and has no entry in the index.
\<close>

theorem keyboard_rows_counterexample:
  "fst (make_keyboard unicode_sample (PInt 5) node_unlinked True Map.empty) =
     [[support_button_text]] \<and>
   snd (make_keyboard unicode_sample (PInt 5) node_unlinked True Map.empty)
     (normalize_text unicode_sample (ascii ''Docs'')) = None"
  by (simp add: make_keyboard_def node_unlinked_def markup_add_def normalize_text_def
      unicode_sample_def sample_lower_cp_def sample_nfkc_cp_def py_strip_def strip_by_def
      is_space_def ascii_def support_button_text_def)

text \<open>
  C9, amended. When the node has no child button, or its last child button has a
  \<open>next_node_id\<close>, or the child buttons with a \<open>next_node_id\<close> are even in number,
  the markup is: those buttons, in order, two per row with at most one dangling last
  button, then the support row, then, when the node is not the root, the back and home
  row. In every case the index afterwards maps the normalised home and back labels
  (when not root) and support label to their tags, and any other key to the
  \<open>next_node_id\<close> of the last such child button whose normalised label it is, or to
  what it held before; so a child button's normalised label is mapped to its
  \<open>next_node_id\<close> when no button with the same normalised label leads elsewhere and the
  label is not one of the fixed ones.
\<close>

theorem keyboard_rows_and_index:
  "(n_buttons nd = [] \<or> next_node_id (last (n_buttons nd)) \<noteq> None \<or>
    even (length (linked (n_buttons nd))) \<longrightarrow>
      fst (make_keyboard U v nd is_root idx) =
        rows_of_two (map label_of (linked (n_buttons nd))) @ [[support_button_text]] @
        (if is_root then [] else [[back_button_text, home_button_text]])) \<and>
   snd (make_keyboard U v nd is_root idx) k =
     (if \<not> is_root \<and> k = normalize_text U home_button_text then Some (PStr ''home'')
      else if \<not> is_root \<and> k = normalize_text U back_button_text then Some (PStr ''back'')
      else if k = normalize_text U support_button_text then Some (PStr ''support_menu'')
      else (case last_linked U (n_buttons nd) k of
              Some b \<Rightarrow> map_option PInt (next_node_id b)
            | None \<Rightarrow> idx k)) \<and>
   (b \<in> set (n_buttons nd) \<and> next_node_id b = Some nid \<and>
    (\<forall>b' \<in> set (linked (n_buttons nd)).
        normalize_text U (label_of b') = normalize_text U (label_of b) \<longrightarrow>
        next_node_id b' = Some nid) \<and>
    normalize_text U (label_of b) \<noteq> normalize_text U support_button_text \<and>
    (is_root \<or> normalize_text U (label_of b) \<noteq> normalize_text U back_button_text \<and>
                normalize_text U (label_of b) \<noteq> normalize_text U home_button_text) \<longrightarrow>
      snd (make_keyboard U v nd is_root idx) (normalize_text U (label_of b)) = Some (PInt nid))"
proof (intro conjI impI)
  let ?bs = "n_buttons nd"
  let ?L = "map label_of (linked ?bs)"
  obtain mk1 row idx1 where loop:
    "make_keyboard_loop U (length ?bs) 0 ?bs ([], [], idx) = (mk1, row, idx1)"
    by (cases "make_keyboard_loop U (length ?bs) 0 ?bs ([], [], idx)") auto
  have mk1: "mk1 = rows_of_two
             (take (if ?bs \<noteq> [] \<and> next_node_id (last ?bs) \<noteq> None
                    then length ?L else 2 * (length ?L div 2)) ?L)"
    using loop_markup [of "[]" "length ?bs" 0 ?bs U "[]" idx] loop by simp
  have idx1: "idx1 k' = (case last_linked U ?bs k' of
                Some b \<Rightarrow> map_option PInt (next_node_id b)
              | None \<Rightarrow> idx k')" for k'
    using loop_index [of U "length ?bs" 0 ?bs "[]" "[]" idx k'] loop by simp
  have lookup: "snd (make_keyboard U v nd is_root idx) k' =
     (if \<not> is_root \<and> k' = normalize_text U home_button_text then Some (PStr ''home'')
      else if \<not> is_root \<and> k' = normalize_text U back_button_text then Some (PStr ''back'')
      else if k' = normalize_text U support_button_text then Some (PStr ''support_menu'')
      else (case last_linked U (n_buttons nd) k' of
              Some b \<Rightarrow> map_option PInt (next_node_id b)
            | None \<Rightarrow> idx k'))" for k'
    using idx1 [of k'] by (simp add: make_keyboard_def loop Let_def)
  show "snd (make_keyboard U v nd is_root idx) k =
     (if \<not> is_root \<and> k = normalize_text U home_button_text then Some (PStr ''home'')
      else if \<not> is_root \<and> k = normalize_text U back_button_text then Some (PStr ''back'')
      else if k = normalize_text U support_button_text then Some (PStr ''support_menu'')
      else (case last_linked U (n_buttons nd) k of
              Some b \<Rightarrow> map_option PInt (next_node_id b)
            | None \<Rightarrow> idx k))"
    by (rule lookup)
  {
    assume a: "b \<in> set (n_buttons nd) \<and> next_node_id b = Some nid \<and>
      (\<forall>b' \<in> set (linked (n_buttons nd)).
        normalize_text U (label_of b') = normalize_text U (label_of b) \<longrightarrow>
        next_node_id b' = Some nid) \<and>
      normalize_text U (label_of b) \<noteq> normalize_text U support_button_text \<and>
      (is_root \<or> normalize_text U (label_of b) \<noteq> normalize_text U back_button_text \<and>
                  normalize_text U (label_of b) \<noteq> normalize_text U home_button_text)"
    then have "b \<in> set (rev (linked ?bs))" by (simp add: linked_def)
    then obtain b' where b': "last_linked U ?bs (normalize_text U (label_of b)) = Some b'"
      unfolding last_linked_def
      by (cases "find (\<lambda>x. normalize_text U (label_of x) = normalize_text U (label_of b))
                   (rev (linked ?bs))") (auto simp: find_None_iff)
    then have "b' \<in> set (linked ?bs)"
      "normalize_text U (label_of b') = normalize_text U (label_of b)"
      unfolding last_linked_def by (auto dest: find_Some_mem)
    with a have "next_node_id b' = Some nid" by blast
    with a b' show "snd (make_keyboard U v nd is_root idx) (normalize_text U (label_of b)) =
        Some (PInt nid)"
      by (auto simp: lookup)
  }
  assume h: "n_buttons nd = [] \<or> next_node_id (last (n_buttons nd)) \<noteq> None \<or>
    even (length (linked (n_buttons nd)))"
  have "mk1 = rows_of_two ?L"
  proof (cases "?bs \<noteq> [] \<and> next_node_id (last ?bs) \<noteq> None")
    case True
    then show ?thesis using mk1 by simp
  next
    case False
    with h have "even (length ?L)" by (auto simp: linked_def)
    then have "2 * (length ?L div 2) = length ?L" by simp
    with False mk1 show ?thesis by simp
  qed
  then show "fst (make_keyboard U v nd is_root idx) =
        rows_of_two (map label_of (linked (n_buttons nd))) @ [[support_button_text]] @
        (if is_root then [] else [[back_button_text, home_button_text]])"
    by (simp add: make_keyboard_def loop Let_def markup_add_def)
qed

lemma sample_norms:
  "normalize_text unicode_sample (ascii ''Docs'') = ascii ''docs''"
  "normalize_text unicode_sample (ascii ''Hours'') = ascii ''hours''"
  by (simp_all add: normalize_text_def unicode_sample_def sample_lower_cp_def
      sample_nfkc_cp_def py_strip_def strip_by_def is_space_def ascii_def)

theorem keyboard_rows_and_index_witness:
  "fst (make_keyboard unicode_sample (PInt 1) root_sample True Map.empty) =
     [[ascii ''Docs'', ascii ''Hours''], [support_button_text]] \<and>
   snd (make_keyboard unicode_sample (PInt 1) root_sample True Map.empty) (ascii ''hours'') =
     Some (PInt 3)"
proof -
  have l: "linked (n_buttons root_sample) = n_buttons root_sample"
    by (simp add: linked_def root_sample_def)
  have h: "n_buttons root_sample = [] \<or> next_node_id (last (n_buttons root_sample)) \<noteq> None \<or>
    even (length (linked (n_buttons root_sample)))"
    by (simp add: root_sample_def)
  have s: "ascii ''hours'' \<noteq> normalize_text unicode_sample support_button_text"
    by (simp add: normalize_text_def unicode_sample_def sample_lower_cp_def
      sample_nfkc_cp_def py_strip_def strip_by_def is_space_def ascii_def support_button_text_def)
  have ll: "last_linked unicode_sample (n_buttons root_sample) (ascii ''hours'') =
            Some \<lparr>b_text = Some (ascii ''Hours''), next_node_id = Some 3\<rparr>"
    by (simp add: last_linked_def linked_def root_sample_def label_of_def normalize_text_def
        unicode_sample_def sample_lower_cp_def sample_nfkc_cp_def py_strip_def strip_by_def
        is_space_def ascii_def)
  from keyboard_rows_and_index [where nd = root_sample and U = unicode_sample and v = "PInt 1"
      and is_root = True and idx = Map.empty and k = "ascii ''hours''"] h
  have "fst (make_keyboard unicode_sample (PInt 1) root_sample True Map.empty) =
          rows_of_two (map label_of (linked (n_buttons root_sample))) @ [[support_button_text]] @
          (if True then [] else [[back_button_text, home_button_text]])"
    and "snd (make_keyboard unicode_sample (PInt 1) root_sample True Map.empty) (ascii ''hours'') =
     (if \<not> True \<and> ascii ''hours'' = normalize_text unicode_sample home_button_text
        then Some (PStr ''home'')
      else if \<not> True \<and> ascii ''hours'' = normalize_text unicode_sample back_button_text
        then Some (PStr ''back'')
      else if ascii ''hours'' = normalize_text unicode_sample support_button_text
        then Some (PStr ''support_menu'')
      else (case last_linked unicode_sample (n_buttons root_sample) (ascii ''hours'') of
              Some b \<Rightarrow> map_option PInt (next_node_id b)
            | None \<Rightarrow> Map.empty (ascii ''hours'')))"
    by blast+
  then show ?thesis
    by (simp add: l ll s) (simp add: root_sample_def label_of_def)
qed

text \<open>
  What the amended statement leaves out: a pending single button is added only while the
  loop handles a linked button, so when the buttons after it all lead nowhere it is
  never added, although its index entry is written.
\<close>

lemma dangling_button_dropped:
  "fst (make_keyboard unicode_sample (PInt 6) node_dangling True Map.empty) =
     [[support_button_text]] \<and>
   snd (make_keyboard unicode_sample (PInt 6) node_dangling True Map.empty) (ascii ''docs'') =
     Some (PInt 2)"
proof -
  have s: "ascii ''docs'' \<noteq> normalize_text unicode_sample support_button_text"
    by (simp add: normalize_text_def unicode_sample_def sample_lower_cp_def
      sample_nfkc_cp_def py_strip_def strip_by_def is_space_def ascii_def support_button_text_def)
  show ?thesis
    by (simp add: make_keyboard_def node_dangling_def markup_add_def sample_norms s Let_def)
qed

subsection \<open>The index after a keyboard\<close>

lemma make_keyboard_lookup:
  "snd (make_keyboard U v nd is_root idx) k =
     (if \<not> is_root \<and> k = normalize_text U home_button_text then Some (PStr ''home'')
      else if \<not> is_root \<and> k = normalize_text U back_button_text then Some (PStr ''back'')
      else if k = normalize_text U support_button_text then Some (PStr ''support_menu'')
      else (case last_linked U (n_buttons nd) k of
              Some b \<Rightarrow> map_option PInt (next_node_id b)
            | None \<Rightarrow> idx k))"
proof -
  obtain mk1 row idx1 where loop:
    "make_keyboard_loop U (length (n_buttons nd)) 0 (n_buttons nd) ([], [], idx) = (mk1, row, idx1)"
    by (cases "make_keyboard_loop U (length (n_buttons nd)) 0 (n_buttons nd) ([], [], idx)") auto
  have "idx1 k = (case last_linked U (n_buttons nd) k of
                Some b \<Rightarrow> map_option PInt (next_node_id b)
              | None \<Rightarrow> idx k)"
    using loop_index [of U "length (n_buttons nd)" 0 "n_buttons nd" "[]" "[]" idx k] loop by simp
  then show ?thesis by (simp add: make_keyboard_def loop Let_def)
qed

lemma last_linked_same_target:
  assumes "b \<in> set bs" and "next_node_id b = Some nid"
    and "\<forall>b' \<in> set (linked bs).
           normalize_text U (label_of b') = normalize_text U (label_of b) \<longrightarrow>
           next_node_id b' = Some nid"
  shows "\<exists>b'. last_linked U bs (normalize_text U (label_of b)) = Some b' \<and>
              next_node_id b' = Some nid"
proof -
  from assms(1,2) have "b \<in> set (rev (linked bs))" by (simp add: linked_def)
  then obtain b' where b': "last_linked U bs (normalize_text U (label_of b)) = Some b'"
    unfolding last_linked_def
    by (cases "find (\<lambda>x. normalize_text U (label_of x) = normalize_text U (label_of b))
                 (rev (linked bs))") (auto simp: find_None_iff)
  then have "b' \<in> set (linked bs)"
    "normalize_text U (label_of b') = normalize_text U (label_of b)"
    unfolding last_linked_def by (auto dest: find_Some_mem)
  with assms(3) have "next_node_id b' = Some nid" by blast
  with b' show ?thesis by blast
qed

subsection \<open>Normalising a label\<close>

lemma twins_norms:
  "normalize_text unicode_sample (ascii ''Docs'') = [100, 111, 99, 115]"
  "normalize_text unicode_sample (ascii ''Files'') = [102, 105, 108, 101, 115]"
  "normalize_text unicode_sample support_button_text =
     [0x2709, 0x20, 0x43D, 0x430, 0x43F, 0x438, 0x441, 0x430, 0x442, 0x44C, 0x20, 0x432, 0x20,
      0x43F, 0x43E, 0x434, 0x434, 0x435, 0x440, 0x436, 0x43A, 0x443]"
  by (simp_all add: normalize_text_def unicode_sample_def sample_lower_cp_def
      sample_nfkc_cp_def py_strip_def strip_by_def is_space_def ascii_def support_button_text_def)

text \<open>
  C8, as stated, fails twice. The source strips, then lower-cases, then applies NFKC,
  and the order matters: MATHEMATICAL BOLD CAPITAL A (U+1D400) has no lower-case mapping
  and its compatibility form is the ASCII capital A, so the source yields "A" while
  the stated composition yields "a". And labels with different normalisations can be
  the same action: the buttons "Docs" and "Files" of one node both lead to the node 2.
\<close>

theorem normalize_order_counterexample:
  "normalize_text unicode_sample [0x1D400] = [0x41] \<and>
   normalize_spec unicode_sample [0x1D400] = [0x61] \<and>
   normalize_text unicode_sample (ascii ''Docs'') = [100, 111, 99, 115] \<and>
   normalize_text unicode_sample (ascii ''Files'') = [102, 105, 108, 101, 115] \<and>
   snd (make_keyboard unicode_sample (PInt 8) node_twins True Map.empty)
     (normalize_text unicode_sample (ascii ''Docs'')) = Some (PInt 2) \<and>
   snd (make_keyboard unicode_sample (PInt 8) node_twins True Map.empty)
     (normalize_text unicode_sample (ascii ''Files'')) = Some (PInt 2)"
proof -
  have 1: "normalize_text unicode_sample [0x1D400] = [0x41]"
    "normalize_spec unicode_sample [0x1D400] = [0x61]"
    by (simp_all add: normalize_text_def normalize_spec_def unicode_sample_def
        sample_lower_cp_def sample_nfkc_cp_def py_strip_def strip_by_def is_space_def)
  have 2: "snd (make_keyboard unicode_sample (PInt 8) node_twins True Map.empty)
     (normalize_text unicode_sample (ascii ''Docs'')) = Some (PInt 2)"
    "snd (make_keyboard unicode_sample (PInt 8) node_twins True Map.empty)
     (normalize_text unicode_sample (ascii ''Files'')) = Some (PInt 2)"
    by (simp_all add: make_keyboard_def node_twins_def markup_add_def twins_norms Let_def)
  from 1 2 twins_norms(1,2) show ?thesis by blast
qed

text \<open>
  C8, amended. \<open>normalize_text\<close> is: trim the surrounding whitespace, then lower-case,
  then normalise to NFKC; it agrees with the stated composition on every text that NFKC
  leaves unchanged before and after trimming and lower-casing. Two labels whose
  normalisations are equal are treated as the same action: for a user in no input flow
  two texts with equal normalisations are handled identically, and a text whose
  normalisation is that of a child button of the node just rendered is resolved to the
  node that button leads to (when no button with the same normalised label leads
  elsewhere and the label is not the support, back or home label).
\<close>

theorem normalize_text_composition:
  "normalize_text U t = nfkc U (py_lower U (py_strip t)) \<and>
   (nfkc U t = t \<and> nfkc U (py_lower U (py_strip t)) = py_lower U (py_strip t) \<longrightarrow>
      normalize_text U t = normalize_spec U t) \<and>
   (normalize_text U t1 = normalize_text U t2 \<and>
    awaiting_username s u = None \<and> awaiting_password s u = None \<and>
    creating_conversation s u = None \<and> u \<notin> waiting_for_message s \<longrightarrow>
      text_message_handler U g u t1 s = text_message_handler U g u t2 s) \<and>
   (normalize_text U t = normalize_text U (label_of b) \<and>
    b \<in> set (n_buttons nd) \<and> next_node_id b = Some nid \<and>
    (\<forall>b' \<in> set (linked (n_buttons nd)).
        normalize_text U (label_of b') = normalize_text U (label_of b) \<longrightarrow>
        next_node_id b' = Some nid) \<and>
    normalize_text U t \<noteq> normalize_text U support_button_text \<and>
    normalize_text U t \<noteq> normalize_text U back_button_text \<and>
    normalize_text U t \<noteq> normalize_text U home_button_text \<and>
    normalized_button_actions s = snd (make_keyboard U v nd is_root idx) \<and>
    awaiting_username s u = None \<and> awaiting_password s u = None \<and>
    creating_conversation s u = None \<and> u \<notin> waiting_for_message s \<longrightarrow>
      normalized_button_actions s (normalize_text U t) = Some (PInt nid) \<and>
      text_message_handler U g u t s = handle_navigation_actions U g u (PInt nid) False s)"
proof (intro conjI impI)
  show "normalize_text U t = nfkc U (py_lower U (py_strip t))"
    by (simp add: normalize_text_def)
next
  assume "nfkc U t = t \<and> nfkc U (py_lower U (py_strip t)) = py_lower U (py_strip t)"
  then show "normalize_text U t = normalize_spec U t"
    by (simp add: normalize_text_def normalize_spec_def)
next
  assume "normalize_text U t1 = normalize_text U t2 \<and>
    awaiting_username s u = None \<and> awaiting_password s u = None \<and>
    creating_conversation s u = None \<and> u \<notin> waiting_for_message s"
  then show "text_message_handler U g u t1 s = text_message_handler U g u t2 s"
    by (auto simp: text_message_handler_def Let_def dom_def)
next
  assume a: "normalize_text U t = normalize_text U (label_of b) \<and>
    b \<in> set (n_buttons nd) \<and> next_node_id b = Some nid \<and>
    (\<forall>b' \<in> set (linked (n_buttons nd)).
        normalize_text U (label_of b') = normalize_text U (label_of b) \<longrightarrow>
        next_node_id b' = Some nid) \<and>
    normalize_text U t \<noteq> normalize_text U support_button_text \<and>
    normalize_text U t \<noteq> normalize_text U back_button_text \<and>
    normalize_text U t \<noteq> normalize_text U home_button_text \<and>
    normalized_button_actions s = snd (make_keyboard U v nd is_root idx) \<and>
    awaiting_username s u = None \<and> awaiting_password s u = None \<and>
    creating_conversation s u = None \<and> u \<notin> waiting_for_message s"
  then obtain b' where b': "last_linked U (n_buttons nd) (normalize_text U (label_of b)) = Some b'"
    "next_node_id b' = Some nid"
    using last_linked_same_target [of b "n_buttons nd" nid U] by blast
  from a have eq: "normalize_text U t = normalize_text U (label_of b)"
    and idx: "normalized_button_actions s = snd (make_keyboard U v nd is_root idx)"
    and flags: "awaiting_username s u = None" "awaiting_password s u = None"
      "creating_conversation s u = None" "u \<notin> waiting_for_message s"
    by blast+
  from a have ns: "normalize_text U (label_of b) \<noteq> normalize_text U support_button_text"
    "normalize_text U (label_of b) \<noteq> normalize_text U back_button_text"
    "normalize_text U (label_of b) \<noteq> normalize_text U home_button_text"
    by auto
  show look: "normalized_button_actions s (normalize_text U t) = Some (PInt nid)"
    unfolding idx eq by (simp add: make_keyboard_lookup ns b')
  from ns have nt: "normalize_text U t \<noteq> normalize_text U back_button_text"
    "normalize_text U t \<noteq> normalize_text U home_button_text"
    unfolding eq by blast+
  from look flags nt show "text_message_handler U g u t s =
      handle_navigation_actions U g u (PInt nid) False s"
    by (simp add: text_message_handler_def handle_navigation_or_fallback_def Let_def dom_def)
qed

theorem normalize_text_composition_witness:
  "normalize_text unicode_sample (ascii '' Docs'') = normalize_spec unicode_sample (ascii '' Docs'') \<and>
   text_message_handler unicode_sample gateway_sample 7 (ascii '' Docs'') root_rendered =
   text_message_handler unicode_sample gateway_sample 7 (ascii ''docs'') root_rendered \<and>
   normalized_button_actions root_rendered (normalize_text unicode_sample (ascii '' Docs'')) =
     Some (PInt 2) \<and>
   text_message_handler unicode_sample gateway_sample 7 (ascii '' Docs'') root_rendered =
     handle_navigation_actions unicode_sample gateway_sample 7 (PInt 2) False root_rendered"
proof -
  let ?b = "\<lparr>b_text = Some (ascii ''Docs''), next_node_id = Some 2\<rparr>"
  have n: "normalize_text unicode_sample (ascii '' Docs'') = [100, 111, 99, 115]"
    "normalize_text unicode_sample (ascii ''docs'') = [100, 111, 99, 115]"
    "normalize_text unicode_sample (ascii ''Hours'') = [104, 111, 117, 114, 115]"
    "normalize_text unicode_sample back_button_text =
       [0x2B05, 0xFE0F, 0x20, 0x43D, 0x430, 0x437, 0x430, 0x434]"
    "normalize_text unicode_sample home_button_text =
       [0x1F3E0, 0x20, 0x432, 0x20, 0x43D, 0x430, 0x447, 0x430, 0x43B, 0x43E]"
    by (simp_all add: normalize_text_def unicode_sample_def sample_lower_cp_def
        sample_nfkc_cp_def py_strip_def strip_by_def is_space_def ascii_def
        back_button_text_def home_button_text_def)
  have stable: "nfkc unicode_sample (ascii '' Docs'') = ascii '' Docs'' \<and>
      nfkc unicode_sample (py_lower unicode_sample (py_strip (ascii '' Docs''))) =
        py_lower unicode_sample (py_strip (ascii '' Docs''))"
    by (simp add: unicode_sample_def sample_lower_cp_def sample_nfkc_cp_def py_strip_def
        strip_by_def is_space_def ascii_def)
  have flags: "awaiting_username root_rendered 7 = None" "awaiting_password root_rendered 7 = None"
    "creating_conversation root_rendered 7 = None" "7 \<notin> waiting_for_message root_rendered"
    by (simp_all add: root_rendered_def with_stack_def init_state_def)
  have same: "normalize_text unicode_sample (ascii '' Docs'') =
      normalize_text unicode_sample (ascii ''docs'') \<and>
    awaiting_username root_rendered 7 = None \<and> awaiting_password root_rendered 7 = None \<and>
    creating_conversation root_rendered 7 = None \<and> 7 \<notin> waiting_for_message root_rendered"
    using flags by (simp add: n)
  have lab: "label_of ?b = ascii ''Docs''"
    by (simp add: label_of_def)
  have button: "normalize_text unicode_sample (ascii '' Docs'') =
      normalize_text unicode_sample (label_of ?b) \<and>
    ?b \<in> set (n_buttons root_sample) \<and> next_node_id ?b = Some 2 \<and>
    (\<forall>b' \<in> set (linked (n_buttons root_sample)).
        normalize_text unicode_sample (label_of b') = normalize_text unicode_sample (label_of ?b) \<longrightarrow>
        next_node_id b' = Some 2) \<and>
    normalize_text unicode_sample (ascii '' Docs'') \<noteq>
      normalize_text unicode_sample support_button_text \<and>
    normalize_text unicode_sample (ascii '' Docs'') \<noteq>
      normalize_text unicode_sample back_button_text \<and>
    normalize_text unicode_sample (ascii '' Docs'') \<noteq>
      normalize_text unicode_sample home_button_text \<and>
    normalized_button_actions root_rendered =
      snd (make_keyboard unicode_sample (PInt 1) root_sample True Map.empty) \<and>
    awaiting_username root_rendered 7 = None \<and> awaiting_password root_rendered 7 = None \<and>
    creating_conversation root_rendered 7 = None \<and> 7 \<notin> waiting_for_message root_rendered"
    using flags
    by (simp add: lab n twins_norms linked_def root_sample_def label_of_def root_rendered_def)
  note inst = normalize_text_composition [where U = unicode_sample and u = 7
      and s = root_rendered and g = gateway_sample]
  have c1: "normalize_text unicode_sample (ascii '' Docs'') =
            normalize_spec unicode_sample (ascii '' Docs'')"
    by (rule inst [where t = "ascii '' Docs''", THEN conjunct2, THEN conjunct1, rule_format,
          OF stable])
  have c2: "text_message_handler unicode_sample gateway_sample 7 (ascii '' Docs'') root_rendered =
      text_message_handler unicode_sample gateway_sample 7 (ascii ''docs'') root_rendered"
    by (rule inst [where ?t1.0 = "ascii '' Docs''" and ?t2.0 = "ascii ''docs''",
          THEN conjunct2, THEN conjunct2, THEN conjunct1, rule_format, OF same])
  note c3 = inst [where t = "ascii '' Docs''" and b = ?b and nd = root_sample and nid = 2
      and v = "PInt 1" and is_root = True and idx = Map.empty,
      THEN conjunct2, THEN conjunct2, THEN conjunct2, rule_format, OF button]
  from c1 c2 c3 show ?thesis by blast
qed

subsection \<open>Back at the bottom of the stack, in a run of the process\<close>

text \<open>
  The states of the run: what each message leaves in the dictionaries. At the end user
  8 has a history stack of one entry, the ticket 0, and is waiting for a message.
\<close>

lemma menu_norms:
  "normalize_text unicode_sample support_button_text =
     [0x2709, 0x20, 0x43D, 0x430, 0x43F, 0x438, 0x441, 0x430, 0x442, 0x44C, 0x20, 0x432, 0x20,
      0x43F, 0x43E, 0x434, 0x434, 0x435, 0x440, 0x436, 0x43A, 0x443]"
  "normalize_text unicode_sample my_conv =
     [0x1F4C2, 0x20, 0x43C, 0x43E, 0x438, 0x20, 0x431, 0x435, 0x441, 0x435, 0x434, 0x44B]"
  by (simp_all add: normalize_text_def unicode_sample_def sample_lower_cp_def
      sample_nfkc_cp_def py_strip_def strip_by_def is_space_def support_button_text_def
      my_conv_def)

lemma at_root_fields:
  "user_nav_stack at_root = [7 \<mapsto> [PInt 1]]"
  "awaiting_username at_root = Map.empty" "awaiting_password at_root = Map.empty"
  "creating_conversation at_root = Map.empty" "waiting_for_message at_root = {}"
  "user_ticket_id at_root = Map.empty"
  "normalized_button_actions at_root (normalize_text unicode_sample support_button_text) =
     Some (PStr ''support_menu'')"
proof -
  have eq: "at_root = fst (reset_to_root_menu unicode_sample gateway_sample 7
                             (clear_ticket 7 init_state))"
    by (simp add: at_root_def text_message_handler_def init_state_def handle_home_action_def
        labels_norm Let_def)
  have root: "get_root_node gateway_sample = Some root_sample"
    by (simp add: gateway_sample_def)
  show "user_nav_stack at_root = [7 \<mapsto> [PInt 1]]"
    "awaiting_username at_root = Map.empty" "awaiting_password at_root = Map.empty"
    "creating_conversation at_root = Map.empty" "waiting_for_message at_root = {}"
    "user_ticket_id at_root = Map.empty"
    unfolding eq
    by (simp_all add: reset_to_root_menu_state root clear_ticket_def init_state_def
        root_sample_def)
  show "normalized_button_actions at_root (normalize_text unicode_sample support_button_text) =
     Some (PStr ''support_menu'')"
    unfolding eq
    by (simp add: reset_to_root_menu_state root make_keyboard_lookup)
qed

lemma in_support_fields:
  "user_nav_stack in_support = [7 \<mapsto> [PInt 1, PStr ''support_menu'']]"
  "awaiting_username in_support = Map.empty" "awaiting_password in_support = Map.empty"
  "creating_conversation in_support = Map.empty" "waiting_for_message in_support = {}"
  "user_ticket_id in_support = Map.empty"
  "normalized_button_actions in_support (normalize_text unicode_sample my_conv) =
     Some (PStr ''list_conversations'')"
proof -
  have eq: "in_support = fst (open_support_menu unicode_sample 7 False at_root)"
    by (simp add: in_support_def text_message_handler_def at_root_fields menu_norms labels_norm
        handle_navigation_or_fallback_def handle_navigation_actions_def Let_def)
       (simp add: at_root_fields(7) [unfolded menu_norms] handle_navigation_actions_def)
  show "user_nav_stack in_support = [7 \<mapsto> [PInt 1, PStr ''support_menu'']]"
    "awaiting_username in_support = Map.empty" "awaiting_password in_support = Map.empty"
    "creating_conversation in_support = Map.empty" "waiting_for_message in_support = {}"
    "user_ticket_id in_support = Map.empty"
    "normalized_button_actions in_support (normalize_text unicode_sample my_conv) =
     Some (PStr ''list_conversations'')"
    unfolding eq
    by (simp_all add: open_support_menu_def build_support_menu_keyboard_def push_def
        at_root_fields menu_norms labels_norm Let_def fun_upd_twist)
qed

lemma tickets_listed_fields:
  "user_nav_stack tickets_listed 8 = None"
  "awaiting_username tickets_listed = Map.empty" "awaiting_password tickets_listed = Map.empty"
  "creating_conversation tickets_listed = Map.empty" "waiting_for_message tickets_listed = {}"
  "user_ticket_id tickets_listed = Map.empty"
  "normalized_button_actions tickets_listed
     (normalize_text unicode_sample (ticket_prefix @ default_title_prefix @ [48])) =
     Some (PStr (ticket_action 0))"
proof -
  have eq: "tickets_listed = fst (show_user_conversations unicode_sample gateway_sample 7 False
                                    in_support)"
    by (simp add: tickets_listed_def text_message_handler_def in_support_fields menu_norms
        labels_norm handle_navigation_or_fallback_def Let_def)
       (simp add: in_support_fields(7) [unfolded menu_norms] handle_navigation_actions_def)
  show "user_nav_stack tickets_listed 8 = None"
    "awaiting_username tickets_listed = Map.empty" "awaiting_password tickets_listed = Map.empty"
    "creating_conversation tickets_listed = Map.empty" "waiting_for_message tickets_listed = {}"
    "user_ticket_id tickets_listed = Map.empty"
    "normalized_button_actions tickets_listed
     (normalize_text unicode_sample (ticket_prefix @ default_title_prefix @ [48])) =
     Some (PStr (ticket_action 0))"
    unfolding eq
    by (simp_all add: show_user_conversations_def gateway_sample_def
        build_user_tickets_keyboard_def push_def in_support_fields zero_button button0_norm
        labels_norm Let_def)
qed

lemma guest_in_ticket_fields:
  "user_nav_stack guest_in_ticket 8 = Some [PStr (ticket_action 0)]"
  "8 \<in> waiting_for_message guest_in_ticket"
  "user_ticket_id guest_in_ticket 8 = Some 0"
proof -
  have eq: "guest_in_ticket =
      final_state (handle_navigation_actions unicode_sample gateway_sample 8
        (PStr (ticket_action 0)) False tickets_listed)"
    by (simp add: guest_in_ticket_def text_message_handler_def tickets_listed_fields
        button0_not_label handle_navigation_or_fallback_def Let_def)
  show "user_nav_stack guest_in_ticket 8 = Some [PStr (ticket_action 0)]"
    "8 \<in> waiting_for_message guest_in_ticket"
    "user_ticket_id guest_in_ticket 8 = Some 0"
    unfolding eq
    by (simp_all add: handle_navigation_actions_def ticket_action_not_fixed is_str_def
        str_of_def startswith_ticket_action show_ticket_messages_def split_ticket_action
        py_int_py_str build_ticket_chat_keyboard_def push_def tickets_listed_fields Let_def)
qed

lemma guest_in_ticket_reachable: "reachable unicode_sample guest_in_ticket"
  unfolding guest_in_ticket_def tickets_listed_def in_support_def at_root_def
  by (intro reachable.r_text reachable.r_init)

theorem back_at_root_is_home_witness:
  "reachable unicode_sample guest_in_ticket \<and>
   user_nav_stack guest_in_ticket 8 = Some [PStr (ticket_action 0)] \<and>
   8 \<in> waiting_for_message guest_in_ticket \<and>
   user_ticket_id guest_in_ticket 8 = Some 0 \<and>
   \<not> can_pop 8 guest_in_ticket \<and>
   stacks_nonempty guest_in_ticket \<and>
   handle_back_action unicode_sample gateway_sample 8 guest_in_ticket =
     handle_home_action unicode_sample gateway_sample 8 guest_in_ticket \<and>
   8 \<notin> waiting_for_message
     (final_state (handle_back_action unicode_sample gateway_sample 8 guest_in_ticket)) \<and>
   user_ticket_id
     (final_state (handle_back_action unicode_sample gateway_sample 8 guest_in_ticket)) 8 = None \<and>
   user_nav_stack
     (final_state (handle_back_action unicode_sample gateway_sample 8 guest_in_ticket)) 8 =
     Some [PInt 1] \<and>
   user_nav_stack
     (final_state (handle_back_action unicode_sample gateway_down 8 guest_in_ticket)) 8 =
     Some [PStr (ticket_action 0)]"
proof -
  have np: "\<not> can_pop 8 guest_in_ticket"
    by (simp add: can_pop_def guest_in_ticket_fields)
  have root: "get_root_node gateway_sample = Some root_sample"
    "get_root_node gateway_down = None"
    by (simp_all add: gateway_sample_def gateway_down_def)
  note up = back_at_root_is_home [OF guest_in_ticket_reachable, where u = 8
      and g = gateway_sample]
  note down = back_at_root_is_home [OF guest_in_ticket_reachable, where u = 8
      and g = gateway_down]
  have inv: "stacks_nonempty guest_in_ticket"
    by (rule up [THEN conjunct1])
  note r = up [THEN conjunct2, rule_format, OF np]
  note d = down [THEN conjunct2, rule_format, OF np]
  have a: "handle_back_action unicode_sample gateway_sample 8 guest_in_ticket =
     handle_home_action unicode_sample gateway_sample 8 guest_in_ticket"
    by (rule r [THEN conjunct1])
  have b: "8 \<notin> waiting_for_message
     (final_state (handle_back_action unicode_sample gateway_sample 8 guest_in_ticket))"
    by (rule r [THEN conjunct2, THEN conjunct2, THEN conjunct1])
  have c: "user_ticket_id
     (final_state (handle_back_action unicode_sample gateway_sample 8 guest_in_ticket)) 8 = None"
    by (rule r [THEN conjunct2, THEN conjunct2, THEN conjunct2, THEN conjunct1])
  have e: "user_nav_stack
     (final_state (handle_back_action unicode_sample gateway_sample 8 guest_in_ticket)) 8 =
     Some [PInt 1]"
    using r [THEN conjunct2, THEN conjunct2, THEN conjunct2, THEN conjunct2]
    by (simp add: root root_sample_def)
  have f: "user_nav_stack
     (final_state (handle_back_action unicode_sample gateway_down 8 guest_in_ticket)) 8 =
     Some [PStr (ticket_action 0)]"
    using d [THEN conjunct2, THEN conjunct2, THEN conjunct2, THEN conjunct2]
    by (simp add: root guest_in_ticket_fields)
  from guest_in_ticket_reachable guest_in_ticket_fields np inv a b c e f
  show ?thesis by blast
qed

end
